theory Spec2Isabelle
  imports Complex_Main "HOL-Library.Word"
begin

section \<open>Values of the Python program\<close>

text \<open>
  The invoicing API of \<^verbatim>\<open>src/app/routes/invoices.py\<close> runs four endpoints against an
  SQLite database whose schema is created by
  \<^verbatim>\<open>src/migrations/migrations/002_create_invoicing_tables.py\<close>.

  Python \<^verbatim>\<open>int\<close> is \<open>int\<close> and \<^verbatim>\<open>str\<close> is \<open>string\<close>. Python \<^verbatim>\<open>float\<close> (SQLite
  \<^verbatim>\<open>REAL\<close>) is a type parameter \<open>'f\<close> of which only \<open>0\<close>, \<open>+\<close> and \<open>*\<close> are used, with
  no law assumed about them: every theorem holds for IEEE doubles as well as for exact
  arithmetic. \<^verbatim>\<open>datetime.date\<close> is a type parameter \<open>'d\<close>. The functions of the Python
  runtime that the endpoints call on these types are gathered in a record.
\<close>

record ('f, 'd) runtime =
  float_of_int :: "int \<Rightarrow> 'f"
  fits_float :: "int \<Rightarrow> bool"
  isoformat :: "'d \<Rightarrow> string"
  fromisoformat :: "string \<Rightarrow> string + 'd"

text \<open>
  \<open>float_of_int\<close> is the conversion that \<^verbatim>\<open>float * int\<close> applies to its right operand.
  It is defined on the integers that \<open>fits_float\<close> accepts; on the others (in CPython,
  those that round to \<open>2 ^ 1024\<close> or more in absolute value) the multiplication raises
  \<^verbatim>\<open>OverflowError\<close>. \<open>isoformat\<close> is \<^verbatim>\<open>date.isoformat\<close>, and \<open>fromisoformat\<close> is
  \<^verbatim>\<open>date.fromisoformat\<close>, which raises \<^verbatim>\<open>ValueError\<close> (here \<open>Inl\<close> of its message) on
  text it cannot parse.
\<close>

text \<open>
  An exception is either FastAPI's \<^verbatim>\<open>HTTPException(status_code, detail)\<close> or any other
  Python exception, of which only the text \<^verbatim>\<open>str(exc)\<close> is ever used.
\<close>

datatype exn = HTTPException nat string | Exception string

subsection \<open>Formatting integers\<close>

definition digit_char :: "nat \<Rightarrow> char" where
  "digit_char n = ''0123456789'' ! (n mod 10)"

fun str_nat :: "nat \<Rightarrow> string" where
  "str_nat n = (if n < 10 then [digit_char n] else str_nat (n div 10) @ [digit_char n])"

declare str_nat.simps [simp del]

text \<open>\<^verbatim>\<open>str(i)\<close>, which is also what \<^verbatim>\<open>f"{i}"\<close> prints.\<close>

definition str_int :: "int \<Rightarrow> string" where
  "str_int i = (if i < 0 then CHR ''-'' # str_nat (nat (- i)) else str_nat (nat i))"

text \<open>
  \<^verbatim>\<open>f"{i:05d}"\<close>: the decimal digits, padded with zeros after the sign to a minimum
  width of five characters.
\<close>

definition zfill :: "nat \<Rightarrow> string \<Rightarrow> string" where
  "zfill w s = replicate (w - length s) CHR ''0'' @ s"

definition format_05d :: "int \<Rightarrow> string" where
  "format_05d i =
     (if i < 0 then CHR ''-'' # zfill 4 (str_nat (nat (- i))) else zfill 5 (str_nat (nat i)))"

section \<open>The database\<close>

text \<open>
  An \<^verbatim>\<open>INTEGER\<close> of SQLite is a signed integer of 64 bits. The driver refuses to bind a
  Python \<^verbatim>\<open>int\<close> outside that range to a statement, and SQLite gives no row an id
  outside it.
\<close>

definition sqlite_int :: "int \<Rightarrow> bool" where
  "sqlite_int i \<longleftrightarrow> - 9223372036854775808 \<le> i \<and> i \<le> 9223372036854775807"

text \<open>
  The four tables of migration 002. A table is the list of its rows in insertion order.
  The columns have the types the schema declares. The id of a client is kept as the
  64-bit word SQLite stores and read as an integer by \<open>c_id\<close>: every request that names
  a client binds the id to a statement first, so that a client in the table is always one
  whose id can be bound. The integer columns of the other tables are of type \<open>int\<close>, which
  has all the values SQLite can store; a row comes into them only through the statements
  below, which refuse what SQLite refuses. \<open>invoices_seq\<close> and \<open>invoice_items_seq\<close> are
  the entries of \<^verbatim>\<open>sqlite_sequence\<close> that SQLite keeps for an
  \<^verbatim>\<open>INTEGER PRIMARY KEY AUTOINCREMENT\<close> column: the largest row id the table ever held.
\<close>

record client_row =
  c_rowid :: "64 word"
  c_name :: string
  c_address :: string
  c_company_registration_no :: string

definition c_id :: "client_row \<Rightarrow> int" where
  "c_id c = sint (c_rowid c)"

record 'f product_row =
  p_id :: int
  p_name :: string
  p_price :: 'f

record 'f invoice_row =
  inv_id :: int
  inv_invoice_no :: string
  inv_issue_date :: string
  inv_due_date :: string
  inv_client_id :: int
  inv_address :: string
  inv_tax :: 'f
  inv_total :: 'f

record 'f invoice_item_row =
  it_id :: int
  it_invoice_id :: int
  it_product_id :: int
  it_quantity :: int
  it_unit_price :: 'f
  it_line_total :: 'f

record 'f database =
  clients :: "client_row list"
  products :: "'f product_row list"
  invoices :: "'f invoice_row list"
  invoice_items :: "'f invoice_item_row list"
  invoices_seq :: int
  invoice_items_seq :: int

text \<open>The state \<^verbatim>\<open>upgrade()\<close> of migration 002 leaves: the seed clients and products.\<close>

definition sample_clients :: "client_row list" where
  "sample_clients =
     [\<lparr>c_rowid = 1, c_name = ''Stellar Industries'',
       c_address = ''100 Market Street, Springfield'', c_company_registration_no = ''REG-10001''\<rparr>,
      \<lparr>c_rowid = 2, c_name = ''Nova Retail Co.'',
       c_address = ''42 Galaxy Way, Horizon City'', c_company_registration_no = ''REG-10002''\<rparr>,
      \<lparr>c_rowid = 3, c_name = ''Aurora Health'',
       c_address = ''88 Northern Lights Ave, Summit'', c_company_registration_no = ''REG-10003''\<rparr>]"

definition sample_products :: "real product_row list" where
  "sample_products =
     [\<lparr>p_id = 1, p_name = ''Website Design'', p_price = 1500\<rparr>,
      \<lparr>p_id = 2, p_name = ''Monthly Hosting'', p_price = 120\<rparr>,
      \<lparr>p_id = 3, p_name = ''Consulting Session'', p_price = 300\<rparr>,
      \<lparr>p_id = 4, p_name = ''Analytics Setup'', p_price = 500\<rparr>]"

definition upgrade :: "real database" where
  "upgrade =
     \<lparr>clients = sample_clients, products = sample_products, invoices = [],
      invoice_items = [], invoices_seq = 0, invoice_items_seq = 0\<rparr>"

subsection \<open>Statements on a connection\<close>

text \<open>
  A connection holds the database as the open transaction sees it, and the storage
  failures still to come: each call into the SQLite driver takes the head of \<open>pending\<close>,
  and \<open>Some m\<close> there makes the call raise an exception whose text is \<open>m\<close> (a locked or
  corrupt file, a full disk). The empty list is a storage that never fails. A statement returns its result or the exception it raised,
  and the connection after it; an exception leaves the rows written so far in place,
  as it does in SQLite until the transaction is rolled back.
\<close>

record 'f connection =
  db :: "'f database"
  pending :: "string option list"

type_synonym ('f, 'a) stmt = "'f connection \<Rightarrow> (exn + 'a) \<times> 'f connection"

definition return :: "'a \<Rightarrow> ('f, 'a) stmt" where
  "return x = (\<lambda>conn. (Inr x, conn))"

definition raise :: "exn \<Rightarrow> ('f, 'a) stmt" where
  "raise e = (\<lambda>conn. (Inl e, conn))"

definition and_then :: "('f, 'a) stmt \<Rightarrow> ('a \<Rightarrow> ('f, 'b) stmt) \<Rightarrow> ('f, 'b) stmt" where
  "and_then m k = (\<lambda>conn. case m conn of (Inl e, conn') \<Rightarrow> (Inl e, conn') | (Inr x, conn') \<Rightarrow> k x conn')"

definition driver_call :: "('f, unit) stmt" where
  "driver_call = (\<lambda>conn.
     case pending conn of
       [] \<Rightarrow> (Inr (), conn)
     | None # fs \<Rightarrow> (Inr (), conn\<lparr>pending := fs\<rparr>)
     | Some m # fs \<Rightarrow> (Inl (Exception m), conn\<lparr>pending := fs\<rparr>))"

text \<open>\<^verbatim>\<open>cursor.execute\<close> of a \<^verbatim>\<open>SELECT\<close>: the query reads the database and changes nothing.\<close>

definition select :: "('f database \<Rightarrow> 'r) \<Rightarrow> ('f, 'r) stmt" where
  "select q = and_then driver_call (\<lambda>_ conn. (Inr (q (db conn)), conn))"

text \<open>
  \<^verbatim>\<open>cursor.execute(sql, params)\<close>: the driver converts the parameters before it runs the
  statement, and raises \<^verbatim>\<open>OverflowError\<close> with the text below for a Python \<^verbatim>\<open>int\<close> that
  is no \<^verbatim>\<open>INTEGER\<close> of SQLite. \<open>params\<close> are the integers among the parameters.
\<close>

definition execute :: "int list \<Rightarrow> ('f, 'a) stmt \<Rightarrow> ('f, 'a) stmt" where
  "execute params run =
     (if list_all sqlite_int params then run
      else raise (Exception ''Python int too large to convert to SQLite INTEGER''))"

definition fetchone :: "'a list \<Rightarrow> 'a option" where
  "fetchone rows = (case rows of [] \<Rightarrow> None | r # _ \<Rightarrow> Some r)"

text \<open>The aggregate \<^verbatim>\<open>MAX\<close> (\<^verbatim>\<open>NULL\<close> on no rows) and \<^verbatim>\<open>COALESCE\<close>.\<close>

definition sql_max :: "int list \<Rightarrow> int option" where
  "sql_max xs = (case xs of [] \<Rightarrow> None | x # ys \<Rightarrow> Some (fold max ys x))"

definition coalesce :: "'a option \<Rightarrow> 'a \<Rightarrow> 'a" where
  "coalesce v dflt = (case v of None \<Rightarrow> dflt | Some x \<Rightarrow> x)"

text \<open>
  The row id SQLite gives a new row of an \<^verbatim>\<open>AUTOINCREMENT\<close> table: one more than the
  largest row id the table holds or ever held. When that is no \<^verbatim>\<open>INTEGER\<close> any more, the
  \<^verbatim>\<open>INSERT\<close> fails with \<^verbatim>\<open>SQLITE_FULL\<close>, whose text is \<open>database_full\<close>.
\<close>

definition database_full :: string where
  "database_full = ''database or disk is full''"

definition autoincrement :: "int \<Rightarrow> int list \<Rightarrow> int" where
  "autoincrement seq ids = max seq (coalesce (sql_max ids) 0) + 1"


section \<open>Request and response models\<close>

text \<open>
  The pydantic models of the source. FastAPI validates a request body against
  \<^verbatim>\<open>InvoiceCreate\<close> before it calls the endpoint (\<^verbatim>\<open>quantity > 0\<close>, \<^verbatim>\<open>tax >= 0\<close>);
  no theorem below needs either bound.
\<close>

record InvoiceItemCreate =
  product_id :: int
  quantity :: int

record ('f, 'd) InvoiceCreate =
  invoice_no :: "string option"
  issue_date :: 'd
  due_date :: 'd
  client_id :: int
  address :: "string option"
  items :: "InvoiceItemCreate list"
  tax :: 'f

record ClientResponse =
  cr_id :: int
  cr_name :: string
  cr_address :: string
  cr_company_registration_no :: string

record 'f InvoiceItemResponse =
  ir_product_id :: int
  ir_name :: string
  ir_unit_price :: 'f
  ir_quantity :: int
  ir_line_total :: 'f

record ('f, 'd) InvoiceResponse =
  r_id :: int
  r_invoice_no :: string
  r_issue_date :: 'd
  r_due_date :: 'd
  r_client :: ClientResponse
  r_address :: string
  r_items :: "'f InvoiceItemResponse list"
  r_tax :: 'f
  r_total :: 'f

text \<open>One element of the list \<^verbatim>\<open>list_invoices\<close> returns under the key \<^verbatim>\<open>"invoices"\<close>.\<close>

record 'f InvoiceSummary =
  s_id :: int
  s_invoice_no :: string
  s_issue_date :: string
  s_due_date :: string
  s_client_name :: string
  s_total :: 'f

section \<open>The endpoints\<close>

subsection \<open>The transaction\<close>

text \<open>
  Modelled from the spec: \<^verbatim>\<open>app.database.get_db\<close>, the context manager every endpoint
  opens with \<^verbatim>\<open>with get_db() as conn\<close>, is not among the sources. The spec describes it as
  the Storage Gateway, which "opens a transactional connection/session to the relational
  store per request" with the contract "begin, execute, commit/rollback, close", gives
  "guaranteed close/rollback on every exit path, including exceptions", and has every
  error "raised inside a transaction trigger a rollback before being surfaced". So the
  body runs on a connection opened on the current database; when it returns, the
  transaction is committed and its writes become the database; when it raises, or when
  opening or committing fails, the database stays as it was.
\<close>

definition get_db ::
  "('f, 'a) stmt \<Rightarrow> string option list \<Rightarrow> 'f database \<Rightarrow> (exn + 'a) \<times> 'f database" where
  "get_db body fs d =
     (case driver_call \<lparr>db = d, pending = fs\<rparr> of
        (Inl e, _) \<Rightarrow> (Inl e, d)
      | (Inr _, conn) \<Rightarrow>
          (case body conn of
             (Inl e, _) \<Rightarrow> (Inl e, d)
           | (Inr x, conn') \<Rightarrow>
               (case driver_call conn' of
                  (Inl e, _) \<Rightarrow> (Inl e, d)
                | (Inr _, conn'') \<Rightarrow> (Inr x, db conn''))))"

text \<open>
  The handlers around the transaction:
  \<^verbatim>\<open>except HTTPException: raise\<close> and
  \<^verbatim>\<open>except Exception as exc: raise HTTPException(status_code=500, detail=f"Database error: {exc}")\<close>.
\<close>

definition database_error :: "(exn + 'a) \<times> 'db \<Rightarrow> (exn + 'a) \<times> 'db" where
  "database_error out =
     (case out of
        (Inl (Exception m), d) \<Rightarrow> (Inl (HTTPException 500 (''Database error: '' @ m)), d)
      | _ \<Rightarrow> out)"

subsection \<open>\<^verbatim>\<open>_fetch_client\<close> and \<^verbatim>\<open>_generate_invoice_no\<close>\<close>

definition find_client :: "'f database \<Rightarrow> int \<Rightarrow> client_row option" where
  "find_client d cid = fetchone (filter (\<lambda>c. c_id c = cid) (clients d))"

definition fetch_client :: "int \<Rightarrow> ('f, client_row option) stmt" where
  "fetch_client cid = execute [cid] (select (\<lambda>d. find_client d cid))"

definition next_id :: "'f database \<Rightarrow> int" where
  "next_id d = coalesce (sql_max (map inv_id (invoices d))) 0 + 1"

definition generate_invoice_no :: "('f, string) stmt" where
  "generate_invoice_no = and_then (select next_id) (\<lambda>n. return (''INV-'' @ format_05d n))"

subsection \<open>\<^verbatim>\<open>create_invoice\<close>\<close>

text \<open>
  Python's truth test on an \<^verbatim>\<open>Optional[str]\<close>: \<^verbatim>\<open>None\<close> and \<^verbatim>\<open>""\<close> are false. \<open>truthy v\<close>
  is the string when the test accepts it.
\<close>

definition truthy :: "string option \<Rightarrow> string option" where
  "truthy v = (case v of None \<Rightarrow> None | Some s \<Rightarrow> if s = [] then None else Some s)"

text \<open>Lines 81 to 87: the invoice number of the request, or a generated one.\<close>

definition invoice_no_taken :: "'f database \<Rightarrow> string \<Rightarrow> 'f invoice_row option" where
  "invoice_no_taken d no = fetchone (filter (\<lambda>r. inv_invoice_no r = no) (invoices d))"

definition choose_invoice_no :: "string option \<Rightarrow> ('f, string) stmt" where
  "choose_invoice_no v =
     (case truthy v of
        Some no \<Rightarrow>
          and_then (select (\<lambda>d. invoice_no_taken d no))
            (\<lambda>taken. case taken of
               Some _ \<Rightarrow> raise (HTTPException 409 ''Invoice number already exists'')
             | None \<Rightarrow> return no)
      | None \<Rightarrow> generate_invoice_no)"

text \<open>Line 89: \<^verbatim>\<open>payload.address or client_row["address"]\<close>.\<close>

definition choose_address :: "string option \<Rightarrow> client_row \<Rightarrow> string" where
  "choose_address v client = (case truthy v of Some a \<Rightarrow> a | None \<Rightarrow> c_address client)"

text \<open>
  Lines 91 to 111: the loop over \<^verbatim>\<open>payload.items\<close>, with the accumulators \<^verbatim>\<open>item_rows\<close>
  and \<^verbatim>\<open>total\<close> (here \<open>subtotal\<close>) as arguments. The dictionaries of \<^verbatim>\<open>item_rows\<close> have the keys of
  \<^verbatim>\<open>InvoiceItemResponse\<close>, which line 171 builds from them. The multiplication of
  line 101 raises \<^verbatim>\<open>OverflowError\<close> for a quantity that is too large for a float.
\<close>

definition find_product :: "'f database \<Rightarrow> int \<Rightarrow> 'f product_row option" where
  "find_product d pid = fetchone (filter (\<lambda>p. p_id p = pid) (products d))"

definition fetch_product :: "int \<Rightarrow> ('f, 'f product_row option) stmt" where
  "fetch_product pid = execute [pid] (select (\<lambda>d. find_product d pid))"

fun price_items ::
  "('f::{zero,plus,times}, 'd) runtime \<Rightarrow> InvoiceItemCreate list \<Rightarrow> 'f InvoiceItemResponse list \<Rightarrow> 'f
     \<Rightarrow> ('f, 'f InvoiceItemResponse list \<times> 'f) stmt" where
  "price_items rt [] item_rows subtotal = return (item_rows, subtotal)"
| "price_items rt (item # rest) item_rows subtotal =
     and_then (fetch_product (product_id item))
       (\<lambda>product. case product of
          None \<Rightarrow> raise (HTTPException 404 (''Product not found: '' @ str_int (product_id item)))
        | Some pr \<Rightarrow>
            if fits_float rt (quantity item) then
              (let line_total = p_price pr * float_of_int rt (quantity item) in
               price_items rt rest
                 (item_rows @
                    [\<lparr>ir_product_id = p_id pr, ir_name = p_name pr, ir_unit_price = p_price pr,
                      ir_quantity = quantity item, ir_line_total = line_total\<rparr>])
                 (subtotal + line_total))
            else raise (Exception ''int too large to convert to float''))"

text \<open>
  Lines 115 to 137: \<^verbatim>\<open>INSERT INTO invoices\<close> and \<^verbatim>\<open>cursor.lastrowid\<close>. The column
  \<^verbatim>\<open>invoice_no\<close> is \<^verbatim>\<open>UNIQUE\<close>: SQLite refuses a number that a row already has, and the
  driver raises \<^verbatim>\<open>IntegrityError\<close> with the text below.
\<close>

definition insert_invoice ::
  "string \<Rightarrow> string \<Rightarrow> string \<Rightarrow> int \<Rightarrow> string \<Rightarrow> 'f \<Rightarrow> 'f \<Rightarrow> ('f, int) stmt" where
  "insert_invoice no issue due cid addr tx tot =
     execute [cid] (and_then driver_call (\<lambda>_ conn.
       let d = db conn;
           rowid = autoincrement (invoices_seq d) (map inv_id (invoices d)) in
       if \<not> sqlite_int rowid then (Inl (Exception database_full), conn)
       else if no \<in> set (map inv_invoice_no (invoices d))
       then (Inl (Exception ''UNIQUE constraint failed: invoices.invoice_no''), conn)
       else
         (Inr rowid,
          conn\<lparr>db := d\<lparr>invoices := invoices d @
                  [\<lparr>inv_id = rowid, inv_invoice_no = no, inv_issue_date = issue,
                    inv_due_date = due, inv_client_id = cid, inv_address = addr,
                    inv_tax = tx, inv_total = tot\<rparr>],
                invoices_seq := rowid\<rparr>\<rparr>)))"

text \<open>Lines 139 to 157: one \<^verbatim>\<open>INSERT INTO invoice_items\<close> for each element of \<^verbatim>\<open>item_rows\<close>.\<close>

definition insert_invoice_item :: "int \<Rightarrow> 'f InvoiceItemResponse \<Rightarrow> ('f, unit) stmt" where
  "insert_invoice_item invoice_id item =
     execute [invoice_id, ir_product_id item, ir_quantity item] (and_then driver_call (\<lambda>_ conn.
       let d = db conn;
           rowid = autoincrement (invoice_items_seq d) (map it_id (invoice_items d)) in
       if \<not> sqlite_int rowid then (Inl (Exception database_full), conn)
       else
         (Inr (),
          conn\<lparr>db := d\<lparr>invoice_items := invoice_items d @
                  [\<lparr>it_id = rowid, it_invoice_id = invoice_id,
                    it_product_id = ir_product_id item, it_quantity = ir_quantity item,
                    it_unit_price = ir_unit_price item, it_line_total = ir_line_total item\<rparr>],
                invoice_items_seq := rowid\<rparr>\<rparr>)))"

fun insert_invoice_items :: "int \<Rightarrow> 'f InvoiceItemResponse list \<Rightarrow> ('f, unit) stmt" where
  "insert_invoice_items invoice_id [] = return ()"
| "insert_invoice_items invoice_id (item # rest) =
     and_then (insert_invoice_item invoice_id item) (\<lambda>_. insert_invoice_items invoice_id rest)"

text \<open>Lines 75 to 174, the body of \<^verbatim>\<open>with get_db() as conn\<close>.\<close>

definition create_invoice_tx ::
  "('f::{zero,plus,times}, 'd) runtime \<Rightarrow> ('f, 'd) InvoiceCreate \<Rightarrow> ('f, ('f, 'd) InvoiceResponse) stmt" where
  "create_invoice_tx rt payload =
     and_then (fetch_client (client_id payload)) (\<lambda>client_row.
       case client_row of
         None \<Rightarrow> raise (HTTPException 404 ''Client not found'')
       | Some client \<Rightarrow>
           and_then (choose_invoice_no (invoice_no payload)) (\<lambda>no.
             let addr = choose_address (address payload) client in
             and_then (price_items rt (items payload) [] 0) (\<lambda>(item_rows, subtotal).
               let total_with_tax = subtotal + tax payload in
               and_then
                 (insert_invoice no (isoformat rt (issue_date payload))
                    (isoformat rt (due_date payload)) (client_id payload) addr (tax payload)
                    total_with_tax)
                 (\<lambda>invoice_id.
                    and_then (insert_invoice_items invoice_id item_rows) (\<lambda>_.
                      return
                        \<lparr>r_id = invoice_id, r_invoice_no = no,
                         r_issue_date = issue_date payload, r_due_date = due_date payload,
                         r_client =
                           \<lparr>cr_id = c_id client, cr_name = c_name client,
                            cr_address = c_address client,
                            cr_company_registration_no = c_company_registration_no client\<rparr>,
                         r_address = addr, r_items = item_rows, r_tax = tax payload,
                         r_total = total_with_tax\<rparr>)))))"

definition create_invoice ::
  "('f::{zero,plus,times}, 'd) runtime \<Rightarrow> ('f, 'd) InvoiceCreate \<Rightarrow> string option list \<Rightarrow> 'f database
     \<Rightarrow> (exn + ('f, 'd) InvoiceResponse) \<times> 'f database" where
  "create_invoice rt payload fs d =
     (if items payload = []
      then (Inl (HTTPException 400 ''Invoice must include at least one item''), d)
      else database_error (get_db (create_invoice_tx rt payload) fs d))"

subsection \<open>\<^verbatim>\<open>list_invoices\<close>\<close>

text \<open>
  A \<^verbatim>\<open>JOIN\<close> is the list of the pairs of rows that satisfy its \<^verbatim>\<open>ON\<close> condition, and
  \<^verbatim>\<open>ORDER BY\<close> sorts it on the key. This endpoint has the second handler only.
\<close>

definition invoices_with_clients :: "'f database \<Rightarrow> ('f invoice_row \<times> client_row) list" where
  "invoices_with_clients d =
     sort_key (\<lambda>(i, c). inv_id i)
       [(i, c). i \<leftarrow> invoices d, c \<leftarrow> clients d, c_id c = inv_client_id i]"

definition list_invoices_tx :: "('f, 'f InvoiceSummary list) stmt" where
  "list_invoices_tx =
     and_then (select invoices_with_clients)
       (\<lambda>rows. return
          (map (\<lambda>(i, c).
             \<lparr>s_id = inv_id i, s_invoice_no = inv_invoice_no i, s_issue_date = inv_issue_date i,
              s_due_date = inv_due_date i, s_client_name = c_name c, s_total = inv_total i\<rparr>) rows))"

definition list_invoices ::
  "string option list \<Rightarrow> 'f database \<Rightarrow> (exn + 'f InvoiceSummary list) \<times> 'f database" where
  "list_invoices fs d = database_error (get_db list_invoices_tx fs d)"

subsection \<open>\<^verbatim>\<open>get_invoice\<close>\<close>

text \<open>The two queries of lines 221 to 258.\<close>

definition invoice_with_client ::
  "'f database \<Rightarrow> int \<Rightarrow> ('f invoice_row \<times> client_row) list" where
  "invoice_with_client d invoice_id =
     [(i, c). i \<leftarrow> invoices d, c \<leftarrow> clients d, c_id c = inv_client_id i,
              inv_id i = invoice_id]"

definition items_with_products ::
  "'f database \<Rightarrow> int \<Rightarrow> ('f invoice_item_row \<times> 'f product_row) list" where
  "items_with_products d invoice_id =
     sort_key (\<lambda>(it, p). it_id it)
       [(it, p). it \<leftarrow> invoice_items d, p \<leftarrow> products d, p_id p = it_product_id it,
                 it_invoice_id it = invoice_id]"

definition get_invoice_tx ::
  "('f, 'd) runtime \<Rightarrow> int \<Rightarrow> ('f, ('f, 'd) InvoiceResponse) stmt" where
  "get_invoice_tx rt invoice_id =
     and_then (execute [invoice_id] (select (\<lambda>d. fetchone (invoice_with_client d invoice_id))))
       (\<lambda>invoice_row. case invoice_row of
          None \<Rightarrow> raise (HTTPException 404 ''Invoice not found'')
        | Some (i, c) \<Rightarrow>
            and_then (execute [invoice_id] (select (\<lambda>d. items_with_products d invoice_id)))
              (\<lambda>item_rows.
                 let its = map (\<lambda>(it, p).
                       \<lparr>ir_product_id = it_product_id it, ir_name = p_name p,
                        ir_unit_price = it_unit_price it, ir_quantity = it_quantity it,
                        ir_line_total = it_line_total it\<rparr>) item_rows in
                 case fromisoformat rt (inv_issue_date i) of
                   Inl m \<Rightarrow> raise (Exception m)
                 | Inr issue \<Rightarrow>
                     (case fromisoformat rt (inv_due_date i) of
                        Inl m \<Rightarrow> raise (Exception m)
                      | Inr due \<Rightarrow>
                          return
                            \<lparr>r_id = inv_id i, r_invoice_no = inv_invoice_no i,
                             r_issue_date = issue, r_due_date = due,
                             r_client =
                               \<lparr>cr_id = c_id c, cr_name = c_name c, cr_address = c_address c,
                                cr_company_registration_no = c_company_registration_no c\<rparr>,
                             r_address = inv_address i, r_items = its, r_tax = inv_tax i,
                             r_total = inv_total i\<rparr>)))"

definition get_invoice ::
  "('f, 'd) runtime \<Rightarrow> int \<Rightarrow> string option list \<Rightarrow> 'f database
     \<Rightarrow> (exn + ('f, 'd) InvoiceResponse) \<times> 'f database" where
  "get_invoice rt invoice_id fs d = database_error (get_db (get_invoice_tx rt invoice_id) fs d)"

subsection \<open>\<^verbatim>\<open>delete_invoice\<close>\<close>

definition delete_invoice_items :: "int \<Rightarrow> ('f, unit) stmt" where
  "delete_invoice_items invoice_id =
     execute [invoice_id] (and_then driver_call (\<lambda>_ conn.
       (Inr (),
        conn\<lparr>db := (db conn)\<lparr>invoice_items :=
          filter (\<lambda>it. it_invoice_id it \<noteq> invoice_id) (invoice_items (db conn))\<rparr>\<rparr>)))"

definition delete_invoice_row :: "int \<Rightarrow> ('f, unit) stmt" where
  "delete_invoice_row invoice_id =
     execute [invoice_id] (and_then driver_call (\<lambda>_ conn.
       (Inr (),
        conn\<lparr>db := (db conn)\<lparr>invoices :=
          filter (\<lambda>i. inv_id i \<noteq> invoice_id) (invoices (db conn))\<rparr>\<rparr>)))"

definition find_invoice :: "'f database \<Rightarrow> int \<Rightarrow> 'f invoice_row option" where
  "find_invoice d invoice_id = fetchone (filter (\<lambda>i. inv_id i = invoice_id) (invoices d))"

definition delete_invoice_tx :: "int \<Rightarrow> ('f, unit) stmt" where
  "delete_invoice_tx invoice_id =
     and_then (execute [invoice_id] (select (\<lambda>d. find_invoice d invoice_id)))
       (\<lambda>found. case found of
          None \<Rightarrow> raise (HTTPException 404 ''Invoice not found'')
        | Some _ \<Rightarrow>
            and_then (delete_invoice_items invoice_id) (\<lambda>_.
              and_then (delete_invoice_row invoice_id) (\<lambda>_. return ())))"

definition delete_invoice ::
  "int \<Rightarrow> string option list \<Rightarrow> 'f database \<Rightarrow> (exn + unit) \<times> 'f database" where
  "delete_invoice invoice_id fs d = database_error (get_db (delete_invoice_tx invoice_id) fs d)"


section \<open>Sequences of requests and the constraints of the schema\<close>

text \<open>
  A request to one of the four endpoints, with the storage failures that meet it.
  \<open>serve\<close> is the database after the request, \<open>serve_all\<close> after a sequence of them.
\<close>

datatype ('f, 'd) request =
    Create "('f, 'd) InvoiceCreate"
  | ListAll
  | Get int
  | Delete int

definition serve ::
  "('f::{zero,plus,times}, 'd) runtime \<Rightarrow> ('f, 'd) request \<times> string option list \<Rightarrow> 'f database
     \<Rightarrow> 'f database" where
  "serve rt rq d =
     (case rq of
        (Create payload, fs) \<Rightarrow> snd (create_invoice rt payload fs d)
      | (ListAll, fs) \<Rightarrow> snd (list_invoices fs d)
      | (Get invoice_id, fs) \<Rightarrow> snd (get_invoice rt invoice_id fs d)
      | (Delete invoice_id, fs) \<Rightarrow> snd (delete_invoice invoice_id fs d))"

definition serve_all ::
  "('f::{zero,plus,times}, 'd) runtime \<Rightarrow> (('f, 'd) request \<times> string option list) list
     \<Rightarrow> 'f database \<Rightarrow> 'f database" where
  "serve_all rt rqs d = fold (serve rt) rqs d"

text \<open>The text of the first storage failure a list of failures holds.\<close>

definition first_failure :: "string option list \<Rightarrow> string option" where
  "first_failure fs = (case dropWhile (\<lambda>x. x = None) fs of [] \<Rightarrow> None | x # _ \<Rightarrow> x)"

definition is_delete :: "('f, 'd) request \<Rightarrow> bool" where
  "is_delete rq = (case rq of Delete _ \<Rightarrow> True | _ \<Rightarrow> False)"

text \<open>
  The constraints migration 002 declares: the four primary keys, \<^verbatim>\<open>invoice_no UNIQUE\<close>,
  and the three foreign keys.
\<close>

definition schema_ok :: "'f database \<Rightarrow> bool" where
  "schema_ok d \<longleftrightarrow>
     distinct (map c_id (clients d)) \<and>
     distinct (map p_id (products d)) \<and>
     distinct (map inv_id (invoices d)) \<and>
     distinct (map it_id (invoice_items d)) \<and>
     distinct (map inv_invoice_no (invoices d)) \<and>
     (\<forall>i \<in> set (invoices d). inv_client_id i \<in> c_id ` set (clients d)) \<and>
     (\<forall>it \<in> set (invoice_items d). it_invoice_id it \<in> inv_id ` set (invoices d)) \<and>
     (\<forall>it \<in> set (invoice_items d). it_product_id it \<in> p_id ` set (products d))"

subsection \<open>Concrete inputs\<close>

text \<open>
  A runtime for the examples: floats are real numbers, to which every integer converts,
  and a date is its ISO text. The
  request is the example of the spec: two units of product 1, no tax.
\<close>

definition example_runtime :: "(real, string) runtime" where
  "example_runtime =
     \<lparr>float_of_int = of_int, fits_float = (\<lambda>q. True), isoformat = (\<lambda>s. s), fromisoformat = Inr\<rparr>"

text \<open>
  The same runtime with floats that take the integers below \<open>2 ^ 1024\<close> in absolute value
  only, as the doubles of CPython do.
\<close>

definition double_runtime :: "(real, string) runtime" where
  "double_runtime =
     example_runtime\<lparr>fits_float := (\<lambda>q. - (2 ^ 1024) < q \<and> q < 2 ^ 1024)\<rparr>"

definition example_payload :: "(real, string) InvoiceCreate" where
  "example_payload =
     \<lparr>invoice_no = None, issue_date = ''2026-01-15'', due_date = ''2026-02-15'', client_id = 1,
      address = None, items = [\<lparr>product_id = 1, quantity = 2\<rparr>], tax = 0\<rparr>"

text \<open>What the example request returns on the seeded database, and the database it leaves.\<close>

definition example_response :: "(real, string) InvoiceResponse" where
  "example_response =
     \<lparr>r_id = 1, r_invoice_no = ''INV-00001'', r_issue_date = ''2026-01-15'',
      r_due_date = ''2026-02-15'',
      r_client = \<lparr>cr_id = 1, cr_name = ''Stellar Industries'',
                  cr_address = ''100 Market Street, Springfield'',
                  cr_company_registration_no = ''REG-10001''\<rparr>,
      r_address = ''100 Market Street, Springfield'',
      r_items = [\<lparr>ir_product_id = 1, ir_name = ''Website Design'', ir_unit_price = 1500,
                  ir_quantity = 2, ir_line_total = 3000\<rparr>],
      r_tax = 0, r_total = 3000\<rparr>"

definition example_db :: "real database" where
  "example_db =
     upgrade\<lparr>invoices :=
         [\<lparr>inv_id = 1, inv_invoice_no = ''INV-00001'', inv_issue_date = ''2026-01-15'',
           inv_due_date = ''2026-02-15'', inv_client_id = 1,
           inv_address = ''100 Market Street, Springfield'', inv_tax = 0, inv_total = 3000\<rparr>],
       invoice_items :=
         [\<lparr>it_id = 1, it_invoice_id = 1, it_product_id = 1, it_quantity = 2,
           it_unit_price = 1500, it_line_total = 3000\<rparr>],
       invoices_seq := 1, invoice_items_seq := 1\<rparr>"

section \<open>Statements and transactions\<close>

lemma driver_call_no_faults: "pending conn = [] \<Longrightarrow> driver_call conn = (Inr (), conn)"
  by (simp add: driver_call_def)

lemma driver_call_cases:
  "driver_call conn = (r, conn') \<Longrightarrow>
     db conn' = db conn \<and> ((\<exists>m. r = Inl (Exception m)) \<or> r = Inr ())"
  by (auto simp: driver_call_def split: list.splits option.splits)

lemma and_then_Inr:
  "and_then m k conn = (Inr y, conn'') \<longleftrightarrow>
     (\<exists>x conn'. m conn = (Inr x, conn') \<and> k x conn' = (Inr y, conn''))"
  by (auto simp: and_then_def split: prod.splits sum.splits)

lemma and_then_Inl:
  "and_then m k conn = (Inl e, conn'') \<longleftrightarrow>
     m conn = (Inl e, conn'') \<or> (\<exists>x conn'. m conn = (Inr x, conn') \<and> k x conn' = (Inl e, conn''))"
  by (auto simp: and_then_def split: prod.splits sum.splits)

lemma and_then_step: "m conn = (Inr x, conn') \<Longrightarrow> and_then m k conn = k x conn'"
  by (simp add: and_then_def)

lemma and_then_fail: "m conn = (Inl e, conn') \<Longrightarrow> and_then m k conn = (Inl e, conn')"
  by (simp add: and_then_def)

lemma select_no_faults: "pending conn = [] \<Longrightarrow> select q conn = (Inr (q (db conn)), conn)"
  by (simp add: select_def and_then_def driver_call_no_faults)

lemma select_Inr: "select q conn = (Inr x, conn') \<Longrightarrow> x = q (db conn) \<and> db conn' = db conn"
  by (auto simp: select_def and_then_Inr dest: driver_call_cases)

lemma select_Inl: "select q conn = (Inl e, conn') \<Longrightarrow> (\<exists>m. e = Exception m) \<and> db conn' = db conn"
  by (auto simp: select_def and_then_Inl dest: driver_call_cases)

lemma select_db: "select q conn = (r, conn') \<Longrightarrow> db conn' = db conn"
  by (cases r) (auto dest: select_Inr select_Inl)

lemma raise_Inr [simp]: "raise e conn \<noteq> (Inr x, conn')"
  by (simp add: raise_def)

lemma return_eq [simp]: "return x conn = (r, conn') \<longleftrightarrow> r = Inr x \<and> conn' = conn"
  by (auto simp: return_def)

lemma raise_eq [simp]: "raise e conn = (r, conn') \<longleftrightarrow> r = Inl e \<and> conn' = conn"
  by (auto simp: raise_def)

lemma execute_Inr:
  "execute ps run conn = (Inr x, conn') \<longleftrightarrow> list_all sqlite_int ps \<and> run conn = (Inr x, conn')"
  by (simp add: execute_def)

lemma execute_bound: "list_all sqlite_int ps \<Longrightarrow> execute ps run = run"
  by (simp add: execute_def)

lemma execute_unbound:
  "\<not> list_all sqlite_int ps \<Longrightarrow>
     execute ps run conn = (Inl (Exception ''Python int too large to convert to SQLite INTEGER''), conn)"
  by (simp add: execute_def raise_def)

lemma sqlite_int_c_id: "sqlite_int (c_id c)"
proof -
  have "- (2 ^ (LENGTH(64) - 1)) \<le> sint (c_rowid c)" by (rule sint_ge)
  moreover have "sint (c_rowid c) < 2 ^ (LENGTH(64) - 1)" by (rule sint_lt)
  ultimately show ?thesis by (simp add: sqlite_int_def c_id_def)
qed

lemma fetch_product_Inr:
  "fetch_product pid conn = (Inr x, conn') \<Longrightarrow> x = find_product (db conn) pid \<and> db conn' = db conn"
  unfolding fetch_product_def execute_Inr by (auto dest: select_Inr)

lemma price_items_Inr:
  "price_items rt its acc tot conn = (Inr (rows, t), conn') \<Longrightarrow>
     db conn' = db conn \<and>
     (\<exists>new. rows = acc @ new \<and>
        list_all2 (\<lambda>item row. \<exists>pr. find_product (db conn) (product_id item) = Some pr \<and>
           row = \<lparr>ir_product_id = p_id pr, ir_name = p_name pr, ir_unit_price = p_price pr,
                   ir_quantity = quantity item,
                   ir_line_total = p_price pr * float_of_int rt (quantity item)\<rparr>) its new \<and>
        t = foldl (+) tot (map ir_line_total new))"
proof (induction its arbitrary: acc tot conn)
  case Nil
  then show ?case by simp
next
  case (Cons item rest)
  obtain product conn1 where
    f: "fetch_product (product_id item) conn = (Inr product, conn1)" and
    k: "(case product of
          None \<Rightarrow> raise (HTTPException 404 (''Product not found: '' @ str_int (product_id item)))
        | Some pr \<Rightarrow>
            if fits_float rt (quantity item) then
              (let line_total = p_price pr * float_of_int rt (quantity item) in
               price_items rt rest
                 (acc @
                    [\<lparr>ir_product_id = p_id pr, ir_name = p_name pr, ir_unit_price = p_price pr,
                      ir_quantity = quantity item, ir_line_total = line_total\<rparr>])
                 (tot + line_total))
            else raise (Exception ''int too large to convert to float'')) conn1 = (Inr (rows, t), conn')"
    using Cons.prems [unfolded price_items.simps and_then_Inr] by blast
  from fetch_product_Inr [OF f] have p: "product = find_product (db conn) (product_id item)"
    and d1: "db conn1 = db conn" by simp_all
  from k obtain pr where pr: "product = Some pr" by (cases product) auto
  with p have fp: "find_product (db conn) (product_id item) = Some pr" by simp
  let ?row = "\<lparr>ir_product_id = p_id pr, ir_name = p_name pr, ir_unit_price = p_price pr,
                ir_quantity = quantity item,
                ir_line_total = p_price pr * float_of_int rt (quantity item)\<rparr>"
  from k pr have ff: "fits_float rt (quantity item)" by (cases "fits_float rt (quantity item)") auto
  from k pr ff have rec: "price_items rt rest (acc @ [?row])
      (tot + p_price pr * float_of_int rt (quantity item)) conn1 = (Inr (rows, t), conn')"
    by (simp add: Let_def)
  from Cons.IH [OF rec] d1 obtain new where
    n: "db conn' = db conn" "rows = (acc @ [?row]) @ new"
       "list_all2 (\<lambda>item row. \<exists>pr. find_product (db conn) (product_id item) = Some pr \<and>
           row = \<lparr>ir_product_id = p_id pr, ir_name = p_name pr, ir_unit_price = p_price pr,
                   ir_quantity = quantity item,
                   ir_line_total = p_price pr * float_of_int rt (quantity item)\<rparr>) rest new"
       "t = foldl (+) (tot + p_price pr * float_of_int rt (quantity item)) (map ir_line_total new)"
    by auto
  show ?case
  proof (intro conjI exI [of _ "?row # new"])
    show "db conn' = db conn" by (fact n(1))
    show "rows = acc @ ?row # new" using n(2) by simp
    show "list_all2 (\<lambda>item row. \<exists>pr. find_product (db conn) (product_id item) = Some pr \<and>
           row = \<lparr>ir_product_id = p_id pr, ir_name = p_name pr, ir_unit_price = p_price pr,
                   ir_quantity = quantity item,
                   ir_line_total = p_price pr * float_of_int rt (quantity item)\<rparr>) (item # rest) (?row # new)"
      using n(3) fp by simp
    show "t = foldl (+) tot (map ir_line_total (?row # new))" using n(4) by simp
  qed
qed

lemma fetch_product_no_faults:
  "pending conn = [] \<Longrightarrow> sqlite_int pid \<Longrightarrow>
     fetch_product pid conn = (Inr (find_product (db conn) pid), conn)"
  by (simp add: fetch_product_def execute_bound select_no_faults)

lemma price_items_no_faults_missing:
  "pending conn = [] \<Longrightarrow>
   \<forall>item \<in> set pre. sqlite_int (product_id item) \<and> fits_float rt (quantity item) \<and>
      find_product (db conn) (product_id item) \<noteq> None \<Longrightarrow>
   sqlite_int (product_id bad) \<Longrightarrow> find_product (db conn) (product_id bad) = None \<Longrightarrow>
   price_items rt (pre @ bad # post) acc tot conn =
     (Inl (HTTPException 404 (''Product not found: '' @ str_int (product_id bad))), conn)"
proof (induction pre arbitrary: acc tot)
  case Nil
  then show ?case
    by (simp add: and_then_step [OF fetch_product_no_faults])
next
  case (Cons item rest)
  then obtain pr where "find_product (db conn) (product_id item) = Some pr" by auto
  with Cons.prems Cons.IH show ?case
    by (simp add: and_then_step [OF fetch_product_no_faults] Let_def)
qed

lemma price_items_no_faults_found:
  "pending conn = [] \<Longrightarrow>
   \<forall>item \<in> set its. sqlite_int (product_id item) \<and> fits_float rt (quantity item) \<and>
      find_product (db conn) (product_id item) \<noteq> None \<Longrightarrow>
   \<exists>rows t. price_items rt its acc tot conn = (Inr (rows, t), conn)"
proof (induction its arbitrary: acc tot)
  case Nil
  then show ?case by simp
next
  case (Cons item rest)
  then obtain pr where "find_product (db conn) (product_id item) = Some pr" by auto
  with Cons.prems Cons.IH show ?case
    by (simp add: and_then_step [OF fetch_product_no_faults] Let_def)
qed


lemma sql_max_Some: "sql_max (x # xs) = Some (Max (set (x # xs)))"
  using Max.set_eq_fold [of x xs] by (simp add: sql_max_def)

lemma autoincrement_gt_ids: "x \<in> set ids \<Longrightarrow> x < autoincrement seq ids"
proof (cases ids)
  case Nil
  assume "x \<in> set ids" with Nil show ?thesis by simp
next
  case (Cons y ys)
  assume "x \<in> set ids"
  then have "x \<le> Max (set ids)" by simp
  then show ?thesis
    unfolding autoincrement_def Cons sql_max_Some coalesce_def by simp
qed

lemma autoincrement_gt_seq: "seq < autoincrement seq ids"
  by (simp add: autoincrement_def)

lemma insert_invoice_Inr:
  assumes "insert_invoice no issue due cid addr tx tot conn = (Inr rowid, conn')"
  shows "no \<notin> set (map inv_invoice_no (invoices (db conn)))"
    and "rowid = autoincrement (invoices_seq (db conn)) (map inv_id (invoices (db conn)))"
    and "db conn' = (db conn)\<lparr>invoices := invoices (db conn) @
                   [\<lparr>inv_id = rowid, inv_invoice_no = no, inv_issue_date = issue,
                     inv_due_date = due, inv_client_id = cid, inv_address = addr,
                     inv_tax = tx, inv_total = tot\<rparr>],
                 invoices_seq := rowid\<rparr>"
    and "sqlite_int rowid"
proof -
  from assms obtain conn1 where c1: "driver_call conn = (Inr (), conn1)" and
    k: "(let d = db conn1;
           rowid = autoincrement (invoices_seq d) (map inv_id (invoices d)) in
       if \<not> sqlite_int rowid then (Inl (Exception database_full), conn1)
       else if no \<in> set (map inv_invoice_no (invoices d))
       then (Inl (Exception ''UNIQUE constraint failed: invoices.invoice_no''), conn1)
       else
         (Inr rowid,
          conn1\<lparr>db := d\<lparr>invoices := invoices d @
                  [\<lparr>inv_id = rowid, inv_invoice_no = no, inv_issue_date = issue,
                    inv_due_date = due, inv_client_id = cid, inv_address = addr,
                    inv_tax = tx, inv_total = tot\<rparr>],
                invoices_seq := rowid\<rparr>\<rparr>)) = (Inr rowid, conn')"
    unfolding insert_invoice_def execute_Inr and_then_Inr by auto
  from driver_call_cases [OF c1] have d1: "db conn1 = db conn" by simp
  from k d1 show "no \<notin> set (map inv_invoice_no (invoices (db conn)))"
    by (auto simp: Let_def split: if_splits)
  from k d1 show "rowid = autoincrement (invoices_seq (db conn)) (map inv_id (invoices (db conn)))"
    by (auto simp: Let_def split: if_splits)
  from k d1 show "db conn' = (db conn)\<lparr>invoices := invoices (db conn) @
                   [\<lparr>inv_id = rowid, inv_invoice_no = no, inv_issue_date = issue,
                     inv_due_date = due, inv_client_id = cid, inv_address = addr,
                     inv_tax = tx, inv_total = tot\<rparr>],
                 invoices_seq := rowid\<rparr>"
    by (auto simp: Let_def split: if_splits)
  from k d1 show "sqlite_int rowid"
    by (auto simp: Let_def split: if_splits)
qed

lemma insert_invoice_item_Inr:
  assumes "insert_invoice_item invoice_id item conn = (Inr u, conn')"
  shows "db conn' = (db conn)\<lparr>invoice_items := invoice_items (db conn) @
                [\<lparr>it_id = autoincrement (invoice_items_seq (db conn)) (map it_id (invoice_items (db conn))),
                  it_invoice_id = invoice_id, it_product_id = ir_product_id item,
                  it_quantity = ir_quantity item, it_unit_price = ir_unit_price item,
                  it_line_total = ir_line_total item\<rparr>],
              invoice_items_seq := autoincrement (invoice_items_seq (db conn)) (map it_id (invoice_items (db conn)))\<rparr>"
proof -
  from assms obtain conn1 where c1: "driver_call conn = (Inr (), conn1)" and
    k: "conn' = conn1\<lparr>db := (db conn1)\<lparr>invoice_items := invoice_items (db conn1) @
                [\<lparr>it_id = autoincrement (invoice_items_seq (db conn1)) (map it_id (invoice_items (db conn1))),
                  it_invoice_id = invoice_id, it_product_id = ir_product_id item,
                  it_quantity = ir_quantity item, it_unit_price = ir_unit_price item,
                  it_line_total = ir_line_total item\<rparr>],
              invoice_items_seq := autoincrement (invoice_items_seq (db conn1)) (map it_id (invoice_items (db conn1)))\<rparr>\<rparr>"
    unfolding insert_invoice_item_def execute_Inr and_then_Inr
    by (auto simp: Let_def split: if_splits)
  from driver_call_cases [OF c1] have "db conn1 = db conn" by simp
  with k show ?thesis by simp
qed

lemma insert_invoice_items_Inr:
  "insert_invoice_items invoice_id rows conn = (Inr u, conn') \<Longrightarrow>
     clients (db conn') = clients (db conn) \<and>
     products (db conn') = products (db conn) \<and>
     invoices (db conn') = invoices (db conn) \<and>
     invoices_seq (db conn') = invoices_seq (db conn) \<and>
     (\<exists>new. invoice_items (db conn') = invoice_items (db conn) @ new \<and>
        map (\<lambda>r. (it_invoice_id r, it_product_id r, it_quantity r, it_unit_price r, it_line_total r)) new =
          map (\<lambda>r. (invoice_id, ir_product_id r, ir_quantity r, ir_unit_price r, ir_line_total r)) rows \<and>
        sorted_wrt (<) (map it_id new) \<and>
        (\<forall>r \<in> set new. \<forall>old \<in> set (invoice_items (db conn)). it_id old < it_id r))"
proof (induction rows arbitrary: conn)
  case Nil
  then show ?case by simp
next
  case (Cons item rest)
  from Cons.prems obtain v conn1 where
    one: "insert_invoice_item invoice_id item conn = (Inr v, conn1)" and
    more: "insert_invoice_items invoice_id rest conn1 = (Inr u, conn')"
    by (auto simp: and_then_Inr)
  let ?a = "autoincrement (invoice_items_seq (db conn)) (map it_id (invoice_items (db conn)))"
  let ?row = "\<lparr>it_id = ?a, it_invoice_id = invoice_id, it_product_id = ir_product_id item,
                  it_quantity = ir_quantity item, it_unit_price = ir_unit_price item,
                  it_line_total = ir_line_total item\<rparr>"
  have d1: "db conn1 = (db conn)\<lparr>invoice_items := invoice_items (db conn) @ [?row],
              invoice_items_seq := ?a\<rparr>"
    by (rule insert_invoice_item_Inr [OF one])
  from Cons.IH [OF more] obtain new where
    frame: "clients (db conn') = clients (db conn1)" "products (db conn') = products (db conn1)"
       "invoices (db conn') = invoices (db conn1)" "invoices_seq (db conn') = invoices_seq (db conn1)" and
    n: "invoice_items (db conn') = invoice_items (db conn1) @ new"
       "map (\<lambda>r. (it_invoice_id r, it_product_id r, it_quantity r, it_unit_price r, it_line_total r)) new =
          map (\<lambda>r. (invoice_id, ir_product_id r, ir_quantity r, ir_unit_price r, ir_line_total r)) rest"
       "sorted_wrt (<) (map it_id new)"
       "\<forall>r \<in> set new. \<forall>old \<in> set (invoice_items (db conn1)). it_id old < it_id r"
    by blast
  have old_lt: "\<forall>old \<in> set (invoice_items (db conn)). it_id old < ?a"
    by (simp add: autoincrement_gt_ids)
  show ?case
  proof (intro conjI exI [of _ "?row # new"])
    show "clients (db conn') = clients (db conn)" using frame d1 by simp
    show "products (db conn') = products (db conn)" using frame d1 by simp
    show "invoices (db conn') = invoices (db conn)" using frame d1 by simp
    show "invoices_seq (db conn') = invoices_seq (db conn)" using frame d1 by simp
    show "invoice_items (db conn') = invoice_items (db conn) @ ?row # new" using n(1) d1 by simp
    show "map (\<lambda>r. (it_invoice_id r, it_product_id r, it_quantity r, it_unit_price r, it_line_total r)) (?row # new) =
          map (\<lambda>r. (invoice_id, ir_product_id r, ir_quantity r, ir_unit_price r, ir_line_total r)) (item # rest)"
      using n(2) by simp
    show "sorted_wrt (<) (map it_id (?row # new))" using n(3) n(4) d1 by simp
    show "\<forall>r \<in> set (?row # new). \<forall>old \<in> set (invoice_items (db conn)). it_id old < it_id r"
      using n(4) d1 old_lt by simp
  qed
qed

lemma get_db_Inr:
  "get_db body fs d = (Inr x, d') \<Longrightarrow>
     \<exists>conn conn'. db conn = d \<and> body conn = (Inr x, conn') \<and> db conn' = d'"
  unfolding get_db_def
  by (auto split: prod.splits sum.splits dest!: driver_call_cases)

lemma get_db_Inl: "get_db body fs d = (Inl e, d') \<Longrightarrow> d' = d"
  unfolding get_db_def
  by (auto split: prod.splits sum.splits)

lemma database_error_Inr [simp]: "database_error out = (Inr x, d') \<longleftrightarrow> out = (Inr x, d')"
  by (auto simp: database_error_def split: prod.splits sum.splits exn.splits)

lemma database_error_snd [simp]: "snd (database_error out) = snd out"
  by (auto simp: database_error_def split: prod.splits sum.splits exn.splits)


lemma fetch_client_Inr:
  "fetch_client cid conn = (Inr x, conn') \<Longrightarrow> x = find_client (db conn) cid \<and> db conn' = db conn"
  unfolding fetch_client_def execute_Inr by (auto dest: select_Inr)

lemma choose_invoice_no_Inr:
  assumes "choose_invoice_no v conn = (Inr no, conn')"
  shows "db conn' = db conn"
    and "no = (case truthy v of Some n \<Rightarrow> n | None \<Rightarrow> ''INV-'' @ format_05d (next_id (db conn)))"
proof -
  show "db conn' = db conn"
  proof (cases "truthy v")
    case None
    with assms show ?thesis
      by (auto simp: choose_invoice_no_def generate_invoice_no_def and_then_Inr dest: select_Inr)
  next
    case (Some n)
    with assms show ?thesis
      by (auto simp: choose_invoice_no_def and_then_Inr dest!: select_Inr split: option.splits)
  qed
  show "no = (case truthy v of Some n \<Rightarrow> n | None \<Rightarrow> ''INV-'' @ format_05d (next_id (db conn)))"
  proof (cases "truthy v")
    case None
    with assms show ?thesis
      by (auto simp: choose_invoice_no_def generate_invoice_no_def and_then_Inr dest: select_Inr)
  next
    case (Some n)
    with assms show ?thesis
      by (auto simp: choose_invoice_no_def and_then_Inr dest!: select_Inr split: option.splits)
  qed
qed

lemma create_invoice_tx_Inr:
  assumes "create_invoice_tx rt payload conn = (Inr resp, conn')"
  obtains client rows new_items where
    "find_client (db conn) (client_id payload) = Some client"
    "r_invoice_no resp =
       (case truthy (invoice_no payload) of
          Some n \<Rightarrow> n | None \<Rightarrow> ''INV-'' @ format_05d (next_id (db conn)))"
    "r_invoice_no resp \<notin> set (map inv_invoice_no (invoices (db conn)))"
    "list_all2 (\<lambda>item row. \<exists>pr. find_product (db conn) (product_id item) = Some pr \<and>
           row = \<lparr>ir_product_id = p_id pr, ir_name = p_name pr, ir_unit_price = p_price pr,
                   ir_quantity = quantity item,
                   ir_line_total = p_price pr * float_of_int rt (quantity item)\<rparr>)
       (items payload) rows"
    "resp =
       \<lparr>r_id = autoincrement (invoices_seq (db conn)) (map inv_id (invoices (db conn))),
        r_invoice_no = r_invoice_no resp,
        r_issue_date = issue_date payload, r_due_date = due_date payload,
        r_client =
          \<lparr>cr_id = c_id client, cr_name = c_name client, cr_address = c_address client,
           cr_company_registration_no = c_company_registration_no client\<rparr>,
        r_address = choose_address (address payload) client, r_items = rows,
        r_tax = tax payload,
        r_total = foldl (+) 0 (map ir_line_total rows) + tax payload\<rparr>"
    "clients (db conn') = clients (db conn)"
    "products (db conn') = products (db conn)"
    "invoices (db conn') = invoices (db conn) @
       [\<lparr>inv_id = r_id resp, inv_invoice_no = r_invoice_no resp,
         inv_issue_date = isoformat rt (issue_date payload),
         inv_due_date = isoformat rt (due_date payload), inv_client_id = client_id payload,
         inv_address = r_address resp, inv_tax = tax payload, inv_total = r_total resp\<rparr>]"
    "invoices_seq (db conn') = r_id resp"
    "invoice_items (db conn') = invoice_items (db conn) @ new_items"
    "map (\<lambda>r. (it_invoice_id r, it_product_id r, it_quantity r, it_unit_price r, it_line_total r)) new_items =
       map (\<lambda>r. (r_id resp, ir_product_id r, ir_quantity r, ir_unit_price r, ir_line_total r)) rows"
    "sorted_wrt (<) (map it_id new_items)"
    "\<forall>r \<in> set new_items. \<forall>old \<in> set (invoice_items (db conn)). it_id old < it_id r"
    "sqlite_int (r_id resp)"
proof -
  from assms obtain client_row conn1 where
    s1: "fetch_client (client_id payload) conn = (Inr client_row, conn1)" and
    k1: "(case client_row of
         None \<Rightarrow> raise (HTTPException 404 ''Client not found'')
       | Some client \<Rightarrow>
           and_then (choose_invoice_no (invoice_no payload)) (\<lambda>no.
             let addr = choose_address (address payload) client in
             and_then (price_items rt (items payload) [] 0) (\<lambda>(item_rows, subtotal).
               let total_with_tax = subtotal + tax payload in
               and_then
                 (insert_invoice no (isoformat rt (issue_date payload))
                    (isoformat rt (due_date payload)) (client_id payload) addr (tax payload)
                    total_with_tax)
                 (\<lambda>invoice_id.
                    and_then (insert_invoice_items invoice_id item_rows) (\<lambda>_.
                      return
                        \<lparr>r_id = invoice_id, r_invoice_no = no,
                         r_issue_date = issue_date payload, r_due_date = due_date payload,
                         r_client =
                           \<lparr>cr_id = c_id client, cr_name = c_name client,
                            cr_address = c_address client,
                            cr_company_registration_no = c_company_registration_no client\<rparr>,
                         r_address = addr, r_items = item_rows, r_tax = tax payload,
                         r_total = total_with_tax\<rparr>))))) conn1 = (Inr resp, conn')"
    unfolding create_invoice_tx_def and_then_Inr by blast
  from fetch_client_Inr [OF s1] have cr: "client_row = find_client (db conn) (client_id payload)"
    and d1: "db conn1 = db conn" by simp_all
  from k1 obtain client where cl: "client_row = Some client" by (cases client_row) auto
  from k1 [unfolded cl option.case and_then_Inr Let_def] obtain no conn2 rows subtotal conn3
      invoice_id conn4 u conn5 where
    s2: "choose_invoice_no (invoice_no payload) conn1 = (Inr no, conn2)" and
    s3: "price_items rt (items payload) [] 0 conn2 = (Inr (rows, subtotal), conn3)" and
    s4: "insert_invoice no (isoformat rt (issue_date payload))
           (isoformat rt (due_date payload)) (client_id payload)
           (choose_address (address payload) client) (tax payload) (subtotal + tax payload) conn3
         = (Inr invoice_id, conn4)" and
    s5: "insert_invoice_items invoice_id rows conn4 = (Inr u, conn5)" and
    r: "resp = \<lparr>r_id = invoice_id, r_invoice_no = no,
                         r_issue_date = issue_date payload, r_due_date = due_date payload,
                         r_client =
                           \<lparr>cr_id = c_id client, cr_name = c_name client,
                            cr_address = c_address client,
                            cr_company_registration_no = c_company_registration_no client\<rparr>,
                         r_address = choose_address (address payload) client, r_items = rows,
                         r_tax = tax payload, r_total = subtotal + tax payload\<rparr>" and
    c5: "conn' = conn5"
    by (auto simp: and_then_Inr)
  note cno = choose_invoice_no_Inr [OF s2, unfolded d1]
  have d2: "db conn2 = db conn" by (fact cno(1))
  have no: "no = (case truthy (invoice_no payload) of
          Some n \<Rightarrow> n | None \<Rightarrow> ''INV-'' @ format_05d (next_id (db conn)))" by (fact cno(2))
  from price_items_Inr [OF s3] d2 have d3: "db conn3 = db conn"
    and rows: "list_all2 (\<lambda>item row. \<exists>pr. find_product (db conn) (product_id item) = Some pr \<and>
           row = \<lparr>ir_product_id = p_id pr, ir_name = p_name pr, ir_unit_price = p_price pr,
                   ir_quantity = quantity item,
                   ir_line_total = p_price pr * float_of_int rt (quantity item)\<rparr>)
       (items payload) rows"
    and sub: "subtotal = foldl (+) 0 (map ir_line_total rows)" by auto
  note i4 = insert_invoice_Inr [OF s4, unfolded d3]
  from insert_invoice_items_Inr [OF s5] obtain new_items where
    frame: "clients (db conn5) = clients (db conn4)" "products (db conn5) = products (db conn4)"
       "invoices (db conn5) = invoices (db conn4)" "invoices_seq (db conn5) = invoices_seq (db conn4)" and
    n: "invoice_items (db conn5) = invoice_items (db conn4) @ new_items"
       "map (\<lambda>r. (it_invoice_id r, it_product_id r, it_quantity r, it_unit_price r, it_line_total r)) new_items =
          map (\<lambda>r. (invoice_id, ir_product_id r, ir_quantity r, ir_unit_price r, ir_line_total r)) rows"
       "sorted_wrt (<) (map it_id new_items)"
       "\<forall>r \<in> set new_items. \<forall>old \<in> set (invoice_items (db conn4)). it_id old < it_id r"
    by blast
  show thesis
  proof (rule that [of client rows new_items])
    show "find_client (db conn) (client_id payload) = Some client" using cr cl by simp
    show "r_invoice_no resp =
       (case truthy (invoice_no payload) of
          Some n \<Rightarrow> n | None \<Rightarrow> ''INV-'' @ format_05d (next_id (db conn)))"
      using r no by simp
    show "r_invoice_no resp \<notin> set (map inv_invoice_no (invoices (db conn)))"
      using i4(1) r by simp
    show "list_all2 (\<lambda>item row. \<exists>pr. find_product (db conn) (product_id item) = Some pr \<and>
           row = \<lparr>ir_product_id = p_id pr, ir_name = p_name pr, ir_unit_price = p_price pr,
                   ir_quantity = quantity item,
                   ir_line_total = p_price pr * float_of_int rt (quantity item)\<rparr>)
       (items payload) rows" by (fact rows)
    show "resp =
       \<lparr>r_id = autoincrement (invoices_seq (db conn)) (map inv_id (invoices (db conn))),
        r_invoice_no = r_invoice_no resp,
        r_issue_date = issue_date payload, r_due_date = due_date payload,
        r_client =
          \<lparr>cr_id = c_id client, cr_name = c_name client, cr_address = c_address client,
           cr_company_registration_no = c_company_registration_no client\<rparr>,
        r_address = choose_address (address payload) client, r_items = rows,
        r_tax = tax payload,
        r_total = foldl (+) 0 (map ir_line_total rows) + tax payload\<rparr>"
      using r i4(2) sub by simp
    show "clients (db conn') = clients (db conn)" using frame c5 i4(3) by simp
    show "products (db conn') = products (db conn)" using frame c5 i4(3) by simp
    show "invoices (db conn') = invoices (db conn) @
       [\<lparr>inv_id = r_id resp, inv_invoice_no = r_invoice_no resp,
         inv_issue_date = isoformat rt (issue_date payload),
         inv_due_date = isoformat rt (due_date payload), inv_client_id = client_id payload,
         inv_address = r_address resp, inv_tax = tax payload, inv_total = r_total resp\<rparr>]"
      using frame c5 i4(3) r by simp
    show "invoices_seq (db conn') = r_id resp" using frame c5 i4(3) r by simp
    show "invoice_items (db conn') = invoice_items (db conn) @ new_items"
      using n(1) c5 i4(3) by simp
    show "map (\<lambda>r. (it_invoice_id r, it_product_id r, it_quantity r, it_unit_price r, it_line_total r)) new_items =
       map (\<lambda>r. (r_id resp, ir_product_id r, ir_quantity r, ir_unit_price r, ir_line_total r)) rows"
      using n(2) r by simp
    show "sorted_wrt (<) (map it_id new_items)" by (fact n(3))
    show "\<forall>r \<in> set new_items. \<forall>old \<in> set (invoice_items (db conn)). it_id old < it_id r"
      using n(4) i4(3) by simp
    show "sqlite_int (r_id resp)" using i4(4) r by simp
  qed
qed

lemma create_example:
  "create_invoice example_runtime example_payload [] upgrade = (Inr example_response, example_db)"
  by code_simp

lemma create_invoice_Inr:
  assumes "create_invoice rt payload fs d = (Inr resp, d')"
  obtains conn conn' where "items payload \<noteq> []" "db conn = d" "db conn' = d'"
    "create_invoice_tx rt payload conn = (Inr resp, conn')"
proof -
  from assms have ne: "items payload \<noteq> []"
    by (auto simp: create_invoice_def split: if_splits)
  with assms have "get_db (create_invoice_tx rt payload) fs d = (Inr resp, d')"
    by (simp add: create_invoice_def)
  from get_db_Inr [OF this] ne that show thesis by blast
qed

lemma filter_fresh_id:
  "\<forall>x \<in> set xs. f x \<noteq> k \<Longrightarrow> filter (\<lambda>x. f x = k) xs = []"
  by (induction xs) auto

lemma foldl_plus_sum_list: "foldl (+) a xs = a + sum_list (xs :: 'a::monoid_add list)"
  by (induction xs arbitrary: a) (simp_all add: add.assoc)

lemma create_invoice_total_exact:
  fixes resp :: "('f::{comm_monoid_add,times}, 'd) InvoiceResponse"
  assumes "create_invoice rt payload fs d = (Inr resp, d')"
  shows "r_total resp = tax payload + sum_list (map ir_line_total (r_items resp))"
proof -
  from assms obtain conn conn' where
    tx: "create_invoice_tx rt payload conn = (Inr resp, conn')"
    by (rule create_invoice_Inr)
  from tx obtain client rows where
    resp: "resp =
       \<lparr>r_id = autoincrement (invoices_seq (db conn)) (map inv_id (invoices (db conn))),
        r_invoice_no = r_invoice_no resp,
        r_issue_date = issue_date payload, r_due_date = due_date payload,
        r_client =
          \<lparr>cr_id = c_id client, cr_name = c_name client, cr_address = c_address client,
           cr_company_registration_no = c_company_registration_no client\<rparr>,
        r_address = choose_address (address payload) client, r_items = rows,
        r_tax = tax payload,
        r_total = foldl (+) 0 (map ir_line_total rows) + tax payload\<rparr>"
    by (rule create_invoice_tx_Inr)
  have "r_items resp = rows" by (subst resp) simp
  moreover have "r_total resp = foldl (+) 0 (map ir_line_total rows) + tax payload"
    by (subst resp) simp
  ultimately show ?thesis by (simp add: foldl_plus_sum_list add.commute)
qed

lemma create_invoice_Inl: "create_invoice rt payload fs d = (Inl e, d') \<Longrightarrow> d' = d"
  by (auto simp: create_invoice_def database_error_def
      split: if_splits prod.splits sum.splits exn.splits dest: get_db_Inl)

lemma fetch_client_no_faults:
  "pending conn = [] \<Longrightarrow> sqlite_int cid \<Longrightarrow>
     fetch_client cid conn = (Inr (find_client (db conn) cid), conn)"
  by (simp add: fetch_client_def execute_bound select_no_faults)

lemma choose_invoice_no_no_faults:
  "pending conn = [] \<Longrightarrow>
   choose_invoice_no v conn =
     (case truthy v of
        Some n \<Rightarrow>
          (case invoice_no_taken (db conn) n of
             Some _ \<Rightarrow> (Inl (HTTPException 409 ''Invoice number already exists''), conn)
           | None \<Rightarrow> (Inr n, conn))
      | None \<Rightarrow> (Inr (''INV-'' @ format_05d (next_id (db conn))), conn))"
  by (simp add: choose_invoice_no_def generate_invoice_no_def and_then_step [OF select_no_faults]
      return_def raise_def split: option.splits)

lemma get_db_no_faults_Inl:
  "body \<lparr>db = d, pending = []\<rparr> = (Inl e, conn') \<Longrightarrow> get_db body [] d = (Inl e, d)"
  by (simp add: get_db_def driver_call_no_faults)

lemma get_db_no_faults_Inr:
  "body \<lparr>db = d, pending = []\<rparr> = (Inr x, conn') \<Longrightarrow> pending conn' = [] \<Longrightarrow>
     get_db body [] d = (Inr x, db conn')"
  by (simp add: get_db_def driver_call_no_faults)

lemma database_error_http [simp]:
  "database_error (Inl (HTTPException s m), d) = (Inl (HTTPException s m), d)"
  by (simp add: database_error_def)

lemma truthy_Some: "truthy v = Some n \<longleftrightarrow> v = Some n \<and> n \<noteq> []"
  by (auto simp: truthy_def split: option.splits)

lemma invoice_no_taken_None:
  "invoice_no_taken d n = None \<longleftrightarrow> n \<notin> set (map inv_invoice_no (invoices d))"
proof -
  have "fetchone xs = None \<longleftrightarrow> xs = []" for xs :: "'a invoice_row list"
    by (cases xs) (simp_all add: fetchone_def)
  then show ?thesis
    by (auto simp: invoice_no_taken_def filter_empty_conv)
qed

lemma delete_invoice_items_no_faults:
  "pending conn = [] \<Longrightarrow> sqlite_int invoice_id \<Longrightarrow>
   delete_invoice_items invoice_id conn =
     (Inr (), conn\<lparr>db := (db conn)\<lparr>invoice_items :=
        filter (\<lambda>it. it_invoice_id it \<noteq> invoice_id) (invoice_items (db conn))\<rparr>\<rparr>)"
  by (simp add: delete_invoice_items_def execute_bound and_then_def driver_call_no_faults)

lemma delete_invoice_row_no_faults:
  "pending conn = [] \<Longrightarrow> sqlite_int invoice_id \<Longrightarrow>
   delete_invoice_row invoice_id conn =
     (Inr (), conn\<lparr>db := (db conn)\<lparr>invoices :=
        filter (\<lambda>i. inv_id i \<noteq> invoice_id) (invoices (db conn))\<rparr>\<rparr>)"
  by (simp add: delete_invoice_row_def execute_bound and_then_def driver_call_no_faults)

lemma delete_invoice_tx_no_faults:
  "pending conn = [] \<Longrightarrow> sqlite_int invoice_id \<Longrightarrow>
   delete_invoice_tx invoice_id conn =
     (case find_invoice (db conn) invoice_id of
        None \<Rightarrow> (Inl (HTTPException 404 ''Invoice not found''), conn)
      | Some _ \<Rightarrow>
          (Inr (), conn\<lparr>db := (db conn)\<lparr>invoice_items :=
               filter (\<lambda>it. it_invoice_id it \<noteq> invoice_id) (invoice_items (db conn)),
             invoices := filter (\<lambda>i. inv_id i \<noteq> invoice_id) (invoices (db conn))\<rparr>\<rparr>))"
  by (simp add: delete_invoice_tx_def execute_bound select_no_faults
      and_then_def delete_invoice_items_no_faults delete_invoice_row_no_faults
      return_def raise_def split: option.splits)

lemma delete_invoice_no_faults:
  "sqlite_int invoice_id \<Longrightarrow>
   delete_invoice invoice_id [] d =
     (case find_invoice d invoice_id of
        None \<Rightarrow> (Inl (HTTPException 404 ''Invoice not found''), d)
      | Some _ \<Rightarrow>
          (Inr (), d\<lparr>invoice_items :=
               filter (\<lambda>it. it_invoice_id it \<noteq> invoice_id) (invoice_items d),
             invoices := filter (\<lambda>i. inv_id i \<noteq> invoice_id) (invoices d)\<rparr>))"
  by (simp add: delete_invoice_def get_db_def driver_call_no_faults delete_invoice_tx_no_faults
      database_error_def split: option.splits)

lemma delete_invoice_tx_Inr:
  assumes "delete_invoice_tx invoice_id conn = (Inr u, conn')"
  shows "db conn' = (db conn)\<lparr>invoice_items :=
               filter (\<lambda>it. it_invoice_id it \<noteq> invoice_id) (invoice_items (db conn)),
             invoices := filter (\<lambda>i. inv_id i \<noteq> invoice_id) (invoices (db conn))\<rparr>"
proof -
  from assms obtain found conn1 where
    s1: "select (\<lambda>d. find_invoice d invoice_id) conn = (Inr found, conn1)" and
    k: "(case found of
          None \<Rightarrow> raise (HTTPException 404 ''Invoice not found'')
        | Some _ \<Rightarrow>
            and_then (delete_invoice_items invoice_id) (\<lambda>_.
              and_then (delete_invoice_row invoice_id) (\<lambda>_. return ()))) conn1 = (Inr u, conn')"
    unfolding delete_invoice_tx_def and_then_Inr execute_Inr by blast
  from select_Inr [OF s1] have d1: "db conn1 = db conn" by simp
  from k obtain row where "found = Some row" by (cases found) auto
  with k obtain v conn2 w conn3 where
    s2: "delete_invoice_items invoice_id conn1 = (Inr v, conn2)" and
    s3: "delete_invoice_row invoice_id conn2 = (Inr w, conn3)" and c3: "conn' = conn3"
    by (auto simp: and_then_Inr)
  from s2 have d2: "db conn2 = (db conn1)\<lparr>invoice_items :=
          filter (\<lambda>it. it_invoice_id it \<noteq> invoice_id) (invoice_items (db conn1))\<rparr>"
    by (auto simp: delete_invoice_items_def execute_Inr and_then_Inr dest!: driver_call_cases)
  from s3 have d3: "db conn3 = (db conn2)\<lparr>invoices :=
          filter (\<lambda>i. inv_id i \<noteq> invoice_id) (invoices (db conn2))\<rparr>"
    by (auto simp: delete_invoice_row_def execute_Inr and_then_Inr dest!: driver_call_cases)
  show ?thesis unfolding c3 d3 d2 d1 by simp
qed

lemma get_db_snd:
  assumes "get_db body fs d = (r, d')"
  shows "d' = d \<or>
     (\<exists>x conn conn'. r = Inr x \<and> db conn = d \<and> body conn = (Inr x, conn') \<and> db conn' = d')"
proof (cases r)
  case (Inl e)
  with assms have "get_db body fs d = (Inl e, d')" by simp
  then have "d' = d" by (rule get_db_Inl)
  then show ?thesis by simp
next
  case (Inr x)
  with assms have "get_db body fs d = (Inr x, d')" by simp
  from get_db_Inr [OF this] Inr show ?thesis by blast
qed

lemma delete_invoice_snd:
  "snd (delete_invoice invoice_id fs d) = d \<or>
   snd (delete_invoice invoice_id fs d) =
     d\<lparr>invoice_items := filter (\<lambda>it. it_invoice_id it \<noteq> invoice_id) (invoice_items d),
       invoices := filter (\<lambda>i. inv_id i \<noteq> invoice_id) (invoices d)\<rparr>"
proof (cases "get_db (delete_invoice_tx invoice_id) fs d")
  case (Pair r d')
  have s: "snd (delete_invoice invoice_id fs d) = d'"
    using Pair by (simp add: delete_invoice_def)
  from get_db_snd [OF Pair] show ?thesis
  proof
    assume "d' = d"
    with s show ?thesis by simp
  next
    assume "\<exists>x conn conn'. r = Inr x \<and> db conn = d \<and>
        delete_invoice_tx invoice_id conn = (Inr x, conn') \<and> db conn' = d'"
    then obtain x conn conn' where c: "db conn = d" "db conn' = d'"
      and tx: "delete_invoice_tx invoice_id conn = (Inr x, conn')" by blast
    from delete_invoice_tx_Inr [OF tx] c s show ?thesis by simp
  qed
qed

lemma and_then_select_no_faults:
  "pending conn = [] \<Longrightarrow> and_then (select q) k conn = k (q (db conn)) conn"
  by (simp add: and_then_def select_no_faults)

lemma join_inner:
  "concat (map (\<lambda>c. if P c then if Q then [(a, c)] else [] else []) cs) =
     (if Q then map (Pair a) (filter P cs) else [])"
  by (induction cs) simp_all

lemma join_Nil: "[(i, c). i \<leftarrow> [], c \<leftarrow> cs, P i c, Q i] = []"
  by simp

lemma join_Cons:
  "[(i, c). i \<leftarrow> a # xs, c \<leftarrow> cs, P i c, Q i] =
     (if Q a then map (Pair a) (filter (P a) cs) else []) @
     [(i, c). i \<leftarrow> xs, c \<leftarrow> cs, P i c, Q i]"
  by (simp only: list.map concat.simps join_inner)

lemma join_append:
  "[(i, c). i \<leftarrow> xs @ ys, c \<leftarrow> cs, P i c, Q i] =
     [(i, c). i \<leftarrow> xs, c \<leftarrow> cs, P i c, Q i] @ [(i, c). i \<leftarrow> ys, c \<leftarrow> cs, P i c, Q i]"
  by (simp only: map_append concat_append)

lemma join_none:
  "\<forall>i \<in> set xs. \<not> Q i \<Longrightarrow> [(i, c). i \<leftarrow> xs, c \<leftarrow> cs, P i c, Q i] = []"
proof (induction xs)
  case Nil
  show ?case by (rule join_Nil)
next
  case (Cons a xs)
  from Cons.prems have a: "\<not> Q a" and xs: "\<forall>i \<in> set xs. \<not> Q i" by simp_all
  from Cons.IH [OF xs] have rest: "[(i, c). i \<leftarrow> xs, c \<leftarrow> cs, P i c, Q i] = []" .
  show ?case
    by (subst join_Cons) (simp only: a rest if_False append_Nil)
qed

lemma get_invoice_tx_missing:
  assumes "pending conn = []" and "\<forall>i \<in> set (invoices (db conn)). inv_id i \<noteq> invoice_id"
    and "sqlite_int invoice_id"
  shows "get_invoice_tx rt invoice_id conn = (Inl (HTTPException 404 ''Invoice not found''), conn)"
proof -
  have j: "invoice_with_client (db conn) invoice_id = []"
    unfolding invoice_with_client_def using assms(2) by (intro join_none) simp
  show ?thesis
    unfolding get_invoice_tx_def
    by (subst execute_bound, simp add: assms(3), subst and_then_select_no_faults [OF assms(1)])
      (simp only: j fetchone_def list.case option.case raise_def)
qed

lemma get_invoice_missing:
  assumes "\<forall>i \<in> set (invoices d). inv_id i \<noteq> invoice_id" and "sqlite_int invoice_id"
  shows "get_invoice rt invoice_id [] d = (Inl (HTTPException 404 ''Invoice not found''), d)"
proof -
  have "get_invoice_tx rt invoice_id \<lparr>db = d, pending = []\<rparr> =
      (Inl (HTTPException 404 ''Invoice not found''), \<lparr>db = d, pending = []\<rparr>)"
    using assms by (intro get_invoice_tx_missing) simp_all
  from get_db_no_faults_Inl [where body = "get_invoice_tx rt invoice_id", OF this]
  show ?thesis by (simp add: get_invoice_def)
qed

lemma database_error_exception [simp]:
  "database_error (Inl (Exception m), d) = (Inl (HTTPException 500 (''Database error: '' @ m)), d)"
  by (simp add: database_error_def)

lemma get_db_connect_fails: "get_db body (Some m # fs) d = (Inl (Exception m), d)"
  by (simp add: get_db_def driver_call_def)

lemma select_fails:
  "pending conn = Some m # fs \<Longrightarrow>
     and_then (select q) k conn = (Inl (Exception m), conn\<lparr>pending := fs\<rparr>)"
  by (simp add: and_then_def select_def driver_call_def)

lemma get_db_first_statement_fails:
  "get_db (and_then (select q) k) (None # Some m # fs) d = (Inl (Exception m), d)"
proof -
  have c: "driver_call \<lparr>db = d, pending = None # Some m # fs\<rparr> =
      (Inr (), \<lparr>db = d, pending = Some m # fs\<rparr>)"
    by (simp add: driver_call_def)
  have s: "and_then (select q) k \<lparr>db = d, pending = Some m # fs\<rparr> =
      (Inl (Exception m), \<lparr>db = d, pending = Some m # fs\<rparr>\<lparr>pending := fs\<rparr>)"
    by (rule select_fails) simp
  show ?thesis
    unfolding get_db_def by (simp only: c s prod.case sum.case)
qed

lemma fetchone_filter_Some: "fetchone (filter P xs) = Some x \<Longrightarrow> x \<in> set xs \<and> P x"
proof -
  assume "fetchone (filter P xs) = Some x"
  then obtain ys where "filter P xs = x # ys"
    by (cases "filter P xs") (simp_all add: fetchone_def)
  then have "x \<in> set (filter P xs)" by simp
  then show ?thesis by simp
qed

lemma find_client_sqlite_int: "find_client d cid = Some c \<Longrightarrow> sqlite_int cid"
  using fetchone_filter_Some [of "\<lambda>c. c_id c = cid" "clients d" c] sqlite_int_c_id [of c]
  by (auto simp: find_client_def)

lemma find_client_Some:
  "find_client d cid = Some c \<Longrightarrow> c \<in> set (clients d) \<and> c_id c = cid"
  unfolding find_client_def by (rule fetchone_filter_Some)

lemma find_product_Some:
  "find_product d pid = Some p \<Longrightarrow> p \<in> set (products d) \<and> p_id p = pid"
  unfolding find_product_def by (rule fetchone_filter_Some)

lemma list_invoices_tx_db: "list_invoices_tx conn = (Inr x, conn') \<Longrightarrow> db conn' = db conn"
  unfolding list_invoices_tx_def and_then_Inr
  by (auto dest!: select_Inr)

lemma list_invoices_snd: "snd (list_invoices fs d) = d"
proof (cases "get_db list_invoices_tx fs d")
  case (Pair r d')
  from get_db_snd [OF Pair] have "d' = d" by (auto dest: list_invoices_tx_db)
  with Pair show ?thesis by (simp add: list_invoices_def)
qed

lemma get_invoice_tx_db:
  assumes "get_invoice_tx rt invoice_id conn = (Inr x, conn')"
  shows "db conn' = db conn"
proof -
  from assms [unfolded get_invoice_tx_def and_then_Inr execute_Inr] obtain row conn1 where
    s1: "select (\<lambda>d. fetchone (invoice_with_client d invoice_id)) conn = (Inr row, conn1)" and
    k: "(case row of
          None \<Rightarrow> raise (HTTPException 404 ''Invoice not found'')
        | Some (i, c) \<Rightarrow>
            and_then (execute [invoice_id] (select (\<lambda>d. items_with_products d invoice_id)))
              (\<lambda>item_rows.
                 let its = map (\<lambda>(it, p).
                       \<lparr>ir_product_id = it_product_id it, ir_name = p_name p,
                        ir_unit_price = it_unit_price it, ir_quantity = it_quantity it,
                        ir_line_total = it_line_total it\<rparr>) item_rows in
                 case fromisoformat rt (inv_issue_date i) of
                   Inl m \<Rightarrow> raise (Exception m)
                 | Inr issue \<Rightarrow>
                     (case fromisoformat rt (inv_due_date i) of
                        Inl m \<Rightarrow> raise (Exception m)
                      | Inr due \<Rightarrow>
                          return
                            \<lparr>r_id = inv_id i, r_invoice_no = inv_invoice_no i,
                             r_issue_date = issue, r_due_date = due,
                             r_client =
                               \<lparr>cr_id = c_id c, cr_name = c_name c, cr_address = c_address c,
                                cr_company_registration_no = c_company_registration_no c\<rparr>,
                             r_address = inv_address i, r_items = its, r_tax = inv_tax i,
                             r_total = inv_total i\<rparr>))) conn1 = (Inr x, conn')"
    by blast
  from select_Inr [OF s1] have d1: "db conn1 = db conn" by simp
  from k obtain i c where "row = Some (i, c)" by (cases row) auto
  with k obtain rows conn2 where
    s2: "select (\<lambda>d. items_with_products d invoice_id) conn1 = (Inr rows, conn2)" and
    k2: "(let its = map (\<lambda>(it, p).
                       \<lparr>ir_product_id = it_product_id it, ir_name = p_name p,
                        ir_unit_price = it_unit_price it, ir_quantity = it_quantity it,
                        ir_line_total = it_line_total it\<rparr>) rows in
                 case fromisoformat rt (inv_issue_date i) of
                   Inl m \<Rightarrow> raise (Exception m)
                 | Inr issue \<Rightarrow>
                     (case fromisoformat rt (inv_due_date i) of
                        Inl m \<Rightarrow> raise (Exception m)
                      | Inr due \<Rightarrow>
                          return
                            \<lparr>r_id = inv_id i, r_invoice_no = inv_invoice_no i,
                             r_issue_date = issue, r_due_date = due,
                             r_client =
                               \<lparr>cr_id = c_id c, cr_name = c_name c, cr_address = c_address c,
                                cr_company_registration_no = c_company_registration_no c\<rparr>,
                             r_address = inv_address i, r_items = its, r_tax = inv_tax i,
                             r_total = inv_total i\<rparr>)) conn2 = (Inr x, conn')"
    by (auto simp: and_then_Inr execute_Inr)
  from select_Inr [OF s2] have d2: "db conn2 = db conn1" by simp
  from k2 have "conn' = conn2"
    by (auto simp: Let_def split: sum.splits)
  with d1 d2 show ?thesis by simp
qed

lemma get_invoice_snd: "snd (get_invoice rt invoice_id fs d) = d"
proof (cases "get_db (get_invoice_tx rt invoice_id) fs d")
  case (Pair r d')
  from get_db_snd [OF Pair] have "d' = d" by (auto dest: get_invoice_tx_db)
  with Pair show ?thesis by (simp add: get_invoice_def)
qed

lemma serve_all_invariant:
  assumes step: "\<And>rq d. P d \<Longrightarrow> P (serve rt rq d)" and "P d"
  shows "P (serve_all rt rqs d)"
  unfolding serve_all_def using \<open>P d\<close>
  by (induction rqs arbitrary: d) (simp_all add: step)

lemma create_invoice_db:
  assumes "create_invoice rt payload fs d = (Inr resp, d')"
  obtains client rows new_items where
    "find_client d (client_id payload) = Some client"
    "r_invoice_no resp =
       (case truthy (invoice_no payload) of
          Some n \<Rightarrow> n | None \<Rightarrow> ''INV-'' @ format_05d (next_id d))"
    "r_invoice_no resp \<notin> set (map inv_invoice_no (invoices d))"
    "list_all2 (\<lambda>item row. \<exists>pr. find_product d (product_id item) = Some pr \<and>
           row = \<lparr>ir_product_id = p_id pr, ir_name = p_name pr, ir_unit_price = p_price pr,
                   ir_quantity = quantity item,
                   ir_line_total = p_price pr * float_of_int rt (quantity item)\<rparr>)
       (items payload) rows"
    "resp =
       \<lparr>r_id = autoincrement (invoices_seq d) (map inv_id (invoices d)),
        r_invoice_no = r_invoice_no resp,
        r_issue_date = issue_date payload, r_due_date = due_date payload,
        r_client =
          \<lparr>cr_id = c_id client, cr_name = c_name client, cr_address = c_address client,
           cr_company_registration_no = c_company_registration_no client\<rparr>,
        r_address = choose_address (address payload) client, r_items = rows,
        r_tax = tax payload,
        r_total = foldl (+) 0 (map ir_line_total rows) + tax payload\<rparr>"
    "clients d' = clients d"
    "products d' = products d"
    "invoices d' = invoices d @
       [\<lparr>inv_id = r_id resp, inv_invoice_no = r_invoice_no resp,
         inv_issue_date = isoformat rt (issue_date payload),
         inv_due_date = isoformat rt (due_date payload), inv_client_id = client_id payload,
         inv_address = r_address resp, inv_tax = tax payload, inv_total = r_total resp\<rparr>]"
    "invoices_seq d' = r_id resp"
    "invoice_items d' = invoice_items d @ new_items"
    "map (\<lambda>r. (it_invoice_id r, it_product_id r, it_quantity r, it_unit_price r, it_line_total r)) new_items =
       map (\<lambda>r. (r_id resp, ir_product_id r, ir_quantity r, ir_unit_price r, ir_line_total r)) rows"
    "sorted_wrt (<) (map it_id new_items)"
    "\<forall>r \<in> set new_items. \<forall>old \<in> set (invoice_items d). it_id old < it_id r"
    "sqlite_int (r_id resp)"
proof -
  from assms obtain conn conn' where c: "db conn = d" "db conn' = d'"
    and tx: "create_invoice_tx rt payload conn = (Inr resp, conn')"
    by (rule create_invoice_Inr)
  show thesis
    by (rule create_invoice_tx_Inr [OF tx, unfolded c]) (rule that, assumption+)
qed

lemma r_id_fresh:
  "\<forall>i \<in> set (invoices d). inv_id i \<noteq> autoincrement (invoices_seq d) (map inv_id (invoices d))"
  using autoincrement_gt_ids [of _ "map inv_id (invoices d)" "invoices_seq d"] by fastforce

lemma truthy_nonempty: "truthy v = Some n \<Longrightarrow> n \<noteq> []"
  by (simp add: truthy_Some)

lemma create_invoice_outcome:
  obtains (unchanged) "snd (create_invoice rt payload fs d) = d"
  | (created) resp d' where "create_invoice rt payload fs d = (Inr resp, d')"
proof (cases "create_invoice rt payload fs d")
  case (Pair r d')
  show thesis
  proof (cases r)
    case (Inl e)
    with Pair create_invoice_Inl [of rt payload fs d e d'] unchanged show ?thesis by simp
  next
    case (Inr resp)
    with Pair created show ?thesis by simp
  qed
qed

lemma create_nonempty_numbers:
  assumes "\<forall>i \<in> set (invoices d). inv_invoice_no i \<noteq> []"
  shows "\<forall>i \<in> set (invoices (snd (create_invoice rt payload fs d))). inv_invoice_no i \<noteq> []"
proof (cases rule: create_invoice_outcome [of rt payload fs d])
  case unchanged
  with assms show ?thesis by simp
next
  case (created resp d')
  from created obtain client rows new_items where
    no: "r_invoice_no resp =
       (case truthy (invoice_no payload) of
          Some n \<Rightarrow> n | None \<Rightarrow> ''INV-'' @ format_05d (next_id d))"
    and hdr: "invoices d' = invoices d @
       [\<lparr>inv_id = r_id resp, inv_invoice_no = r_invoice_no resp,
         inv_issue_date = isoformat rt (issue_date payload),
         inv_due_date = isoformat rt (due_date payload), inv_client_id = client_id payload,
         inv_address = r_address resp, inv_tax = tax payload, inv_total = r_total resp\<rparr>]"
    by (rule create_invoice_db)
  from no have "r_invoice_no resp \<noteq> []"
    by (cases "truthy (invoice_no payload)") (simp_all add: truthy_nonempty)
  with assms hdr created show ?thesis by simp
qed

lemma create_distinct_numbers:
  assumes "distinct (map inv_invoice_no (invoices d))"
  shows "distinct (map inv_invoice_no (invoices (snd (create_invoice rt payload fs d))))"
proof (cases rule: create_invoice_outcome [of rt payload fs d])
  case unchanged
  with assms show ?thesis by simp
next
  case (created resp d')
  from created obtain client rows new_items where
    free: "r_invoice_no resp \<notin> set (map inv_invoice_no (invoices d))"
    and hdr: "invoices d' = invoices d @
       [\<lparr>inv_id = r_id resp, inv_invoice_no = r_invoice_no resp,
         inv_issue_date = isoformat rt (issue_date payload),
         inv_due_date = isoformat rt (due_date payload), inv_client_id = client_id payload,
         inv_address = r_address resp, inv_tax = tax payload, inv_total = r_total resp\<rparr>]"
    by (rule create_invoice_db)
  with assms created show ?thesis by simp
qed

lemma delete_nonempty_numbers:
  assumes "\<forall>i \<in> set (invoices d). inv_invoice_no i \<noteq> []"
  shows "\<forall>i \<in> set (invoices (snd (delete_invoice invoice_id fs d))). inv_invoice_no i \<noteq> []"
  using delete_invoice_snd [of invoice_id fs d] assms by auto

lemma delete_distinct_numbers:
  assumes "distinct (map inv_invoice_no (invoices d))"
  shows "distinct (map inv_invoice_no (invoices (snd (delete_invoice invoice_id fs d))))"
  using delete_invoice_snd [of invoice_id fs d] assms by (auto simp: distinct_map_filter)

lemma serve_nonempty_numbers:
  assumes "\<forall>i \<in> set (invoices d). inv_invoice_no i \<noteq> []"
  shows "\<forall>i \<in> set (invoices (serve rt rq d)). inv_invoice_no i \<noteq> []"
proof (cases rq)
  case (Pair req fs)
  show ?thesis
  proof (cases req)
    case (Create payload)
    with Pair create_nonempty_numbers [OF assms] show ?thesis by (simp add: serve_def)
  next
    case ListAll
    with Pair assms show ?thesis by (simp add: serve_def list_invoices_snd)
  next
    case (Get invoice_id)
    with Pair assms show ?thesis by (simp add: serve_def get_invoice_snd)
  next
    case (Delete invoice_id)
    with Pair delete_nonempty_numbers [OF assms] show ?thesis by (simp add: serve_def)
  qed
qed

lemma serve_distinct_numbers:
  assumes "distinct (map inv_invoice_no (invoices d))"
  shows "distinct (map inv_invoice_no (invoices (serve rt rq d)))"
proof (cases rq)
  case (Pair req fs)
  show ?thesis
  proof (cases req)
    case (Create payload)
    with Pair create_distinct_numbers [OF assms] show ?thesis by (simp add: serve_def)
  next
    case ListAll
    with Pair assms show ?thesis by (simp add: serve_def list_invoices_snd)
  next
    case (Get invoice_id)
    with Pair assms show ?thesis by (simp add: serve_def get_invoice_snd)
  next
    case (Delete invoice_id)
    with Pair delete_distinct_numbers [OF assms] show ?thesis by (simp add: serve_def)
  qed
qed

lemma choose_invoice_no_empty: "choose_invoice_no (Some []) = choose_invoice_no None"
  by (simp add: choose_invoice_no_def truthy_def)

lemma create_invoice_empty_no:
  "create_invoice rt (payload\<lparr>invoice_no := Some []\<rparr>) fs d =
   create_invoice rt (payload\<lparr>invoice_no := None\<rparr>) fs d"
  by (simp add: create_invoice_def create_invoice_tx_def choose_invoice_no_empty
      cong del: option.case_cong_weak prod.case_cong_weak)

lemma next_id_Max:
  "next_id d = (if invoices d = [] then 0 else Max (inv_id ` set (invoices d))) + 1"
proof (cases "invoices d")
  case Nil
  then show ?thesis by (simp add: next_id_def sql_max_def coalesce_def)
next
  case (Cons i rest)
  then show ?thesis
    unfolding next_id_def by (simp add: sql_max_Some coalesce_def del: Max_insert)
qed

lemma next_id_gt: "i \<in> set (invoices d) \<Longrightarrow> inv_id i < next_id d"
proof -
  assume i: "i \<in> set (invoices d)"
  then have "inv_id i \<le> Max (inv_id ` set (invoices d))" by simp
  moreover from i have "invoices d \<noteq> []" by auto
  ultimately show ?thesis by (simp add: next_id_Max)
qed

lemma next_id_le_autoincrement:
  "next_id d \<le> autoincrement (invoices_seq d) (map inv_id (invoices d))"
  by (simp add: next_id_def autoincrement_def)

lemma length_str_nat: "0 < m \<Longrightarrow> k < 10 ^ m \<Longrightarrow> length (str_nat k) \<le> m"
proof (induction m arbitrary: k)
  case 0
  then show ?case by simp
next
  case (Suc m)
  show ?case
  proof (cases "k < 10")
    case True
    then show ?thesis by (subst str_nat.simps) simp
  next
    case False
    with Suc.prems have m: "0 < m" by (cases m) simp_all
    from Suc.prems have "k div 10 < 10 ^ m" by (simp add: less_mult_imp_div_less mult.commute)
    from Suc.IH [OF m this] False show ?thesis by (subst str_nat.simps) simp
  qed
qed

lemma length_format_05d:
  "0 \<le> n \<Longrightarrow> 5 \<le> length (format_05d n) \<and> (n < 100000 \<longrightarrow> length (format_05d n) = 5)"
proof -
  assume n: "0 \<le> n"
  have "length (str_nat (nat n)) \<le> 5" if "n < 100000"
    using that n by (intro length_str_nat) simp_all
  with n show ?thesis by (auto simp: format_05d_def zfill_def)
qed

lemma serve_keeps_invoices:
  assumes "\<not> is_delete (fst rq)"
  shows "set (invoices d) \<subseteq> set (invoices (serve rt rq d))"
proof (cases rq)
  case (Pair req fs)
  show ?thesis
  proof (cases req)
    case (Create payload)
    show ?thesis
    proof (cases rule: create_invoice_outcome [of rt payload fs d])
      case unchanged
      with Pair Create show ?thesis by (simp add: serve_def)
    next
      case (created resp d')
      from created obtain client rows new_items where
        "invoices d' = invoices d @
          [\<lparr>inv_id = r_id resp, inv_invoice_no = r_invoice_no resp,
            inv_issue_date = isoformat rt (issue_date payload),
            inv_due_date = isoformat rt (due_date payload), inv_client_id = client_id payload,
            inv_address = r_address resp, inv_tax = tax payload, inv_total = r_total resp\<rparr>]"
        by (rule create_invoice_db)
      with Pair Create created show ?thesis by (auto simp: serve_def)
    qed
  next
    case ListAll
    with Pair show ?thesis by (simp add: serve_def list_invoices_snd)
  next
    case (Get invoice_id)
    with Pair show ?thesis by (simp add: serve_def get_invoice_snd)
  next
    case (Delete invoice_id)
    with Pair assms show ?thesis by (simp add: is_delete_def)
  qed
qed

lemma serve_all_keeps_invoices:
  "\<forall>rq \<in> set rqs. \<not> is_delete (fst rq) \<Longrightarrow>
     set (invoices d) \<subseteq> set (invoices (serve_all rt rqs d))"
proof (induction rqs arbitrary: d)
  case Nil
  then show ?case by (simp add: serve_all_def)
next
  case (Cons rq rqs)
  from Cons.prems have "set (invoices d) \<subseteq> set (invoices (serve rt rq d))"
    by (intro serve_keeps_invoices) simp
  moreover from Cons.prems Cons.IH [of "serve rt rq d"]
  have "set (invoices (serve rt rq d)) \<subseteq> set (invoices (serve_all rt rqs (serve rt rq d)))"
    by simp
  ultimately show ?case by (auto simp: serve_all_def)
qed

lemma filter_unique:
  assumes "distinct (map f xs)" and "fetchone (filter (\<lambda>x. f x = k) xs) = Some y"
  shows "filter (\<lambda>x. f x = k) xs = [y]"
proof -
  from assms(2) obtain ys where ys: "filter (\<lambda>x. f x = k) xs = y # ys"
    by (cases "filter (\<lambda>x. f x = k) xs") (simp_all add: fetchone_def)
  from assms(1) have "distinct (map f (filter (\<lambda>x. f x = k) xs))"
    by (rule distinct_map_filter)
  with ys have "f y \<notin> f ` set ys" by simp
  moreover have "\<forall>z \<in> set ys. f z = k \<and> f y = k"
  proof
    fix z assume "z \<in> set ys"
    with ys have "z \<in> set (filter (\<lambda>x. f x = k) xs)" "y \<in> set (filter (\<lambda>x. f x = k) xs)"
      by simp_all
    then show "f z = k \<and> f y = k" by simp
  qed
  ultimately have "ys = []" by (cases ys) auto
  with ys show ?thesis by simp
qed

lemma join_new_items:
  assumes "distinct (map p_id ps)"
    and "map (\<lambda>r. (it_invoice_id r, it_product_id r, it_quantity r, it_unit_price r, it_line_total r)) new =
         map (\<lambda>r. (iid, ir_product_id r, ir_quantity r, ir_unit_price r, ir_line_total r)) rows"
    and "\<forall>row \<in> set rows. \<exists>pr. fetchone (filter (\<lambda>p. p_id p = ir_product_id row) ps) = Some pr \<and>
           ir_name row = p_name pr"
  shows "map fst [(it, p). it \<leftarrow> new, p \<leftarrow> ps, p_id p = it_product_id it, it_invoice_id it = iid] = new \<and>
         map (\<lambda>(it, p). \<lparr>ir_product_id = it_product_id it, ir_name = p_name p,
                 ir_unit_price = it_unit_price it, ir_quantity = it_quantity it,
                 ir_line_total = it_line_total it\<rparr>)
           [(it, p). it \<leftarrow> new, p \<leftarrow> ps, p_id p = it_product_id it, it_invoice_id it = iid] = rows"
  using assms(2,3)
proof (induction new arbitrary: rows)
  case Nil
  then have "rows = []" by simp
  then show ?case by (simp only: join_Nil list.map) simp
next
  case (Cons it new)
  from Cons.prems(1) obtain row rest where rows: "rows = row # rest" by (cases rows) auto
  from Cons.prems(1) rows have
    f: "it_invoice_id it = iid" "it_product_id it = ir_product_id row"
       "it_quantity it = ir_quantity row" "it_unit_price it = ir_unit_price row"
       "it_line_total it = ir_line_total row"
    and tl: "map (\<lambda>r. (it_invoice_id r, it_product_id r, it_quantity r, it_unit_price r, it_line_total r)) new =
         map (\<lambda>r. (iid, ir_product_id r, ir_quantity r, ir_unit_price r, ir_line_total r)) rest"
    by simp_all
  from Cons.prems(2) rows obtain pr where
    pr: "fetchone (filter (\<lambda>p. p_id p = ir_product_id row) ps) = Some pr" "ir_name row = p_name pr"
    by auto
  from Cons.prems(2) rows have
    "\<forall>row \<in> set rest. \<exists>pr. fetchone (filter (\<lambda>p. p_id p = ir_product_id row) ps) = Some pr \<and>
           ir_name row = p_name pr" by simp
  note IH = Cons.IH [OF tl this]
  have one: "filter (\<lambda>p. p_id p = it_product_id it) ps = [pr]"
    unfolding f(2) using assms(1) pr(1) by (rule filter_unique)
  have row: "\<lparr>ir_product_id = it_product_id it, ir_name = p_name pr,
                 ir_unit_price = it_unit_price it, ir_quantity = it_quantity it,
                 ir_line_total = it_line_total it\<rparr> = row"
    using f pr(2) by (cases row) simp
  have step: "[(i, p). i \<leftarrow> it # new, p \<leftarrow> ps, p_id p = it_product_id i, it_invoice_id i = iid] =
      (it, pr) # [(i, p). i \<leftarrow> new, p \<leftarrow> ps, p_id p = it_product_id i, it_invoice_id i = iid]"
    by (subst join_Cons) (simp only: f(1) one if_True list.map append_Cons append_Nil simp_thms)
  show ?case
    unfolding step rows using IH row by simp
qed

lemma get_invoice_tx_found:
  assumes "pending conn = []" and "sqlite_int invoice_id"
    and "fetchone (invoice_with_client (db conn) invoice_id) = Some (i, c)"
    and "fromisoformat rt (inv_issue_date i) = Inr issue"
    and "fromisoformat rt (inv_due_date i) = Inr due"
  shows "get_invoice_tx rt invoice_id conn =
     (Inr \<lparr>r_id = inv_id i, r_invoice_no = inv_invoice_no i,
           r_issue_date = issue, r_due_date = due,
           r_client =
             \<lparr>cr_id = c_id c, cr_name = c_name c, cr_address = c_address c,
              cr_company_registration_no = c_company_registration_no c\<rparr>,
           r_address = inv_address i,
           r_items = map (\<lambda>(it, p).
                       \<lparr>ir_product_id = it_product_id it, ir_name = p_name p,
                        ir_unit_price = it_unit_price it, ir_quantity = it_quantity it,
                        ir_line_total = it_line_total it\<rparr>)
                     (items_with_products (db conn) invoice_id),
           r_tax = inv_tax i, r_total = inv_total i\<rparr>, conn)"
  unfolding get_invoice_tx_def
  by (simp add: execute_bound and_then_select_no_faults assms Let_def)

lemma get_invoice_found:
  assumes "sqlite_int invoice_id"
    and "fetchone (invoice_with_client d invoice_id) = Some (i, c)"
    and "fromisoformat rt (inv_issue_date i) = Inr issue"
    and "fromisoformat rt (inv_due_date i) = Inr due"
  shows "get_invoice rt invoice_id [] d =
     (Inr \<lparr>r_id = inv_id i, r_invoice_no = inv_invoice_no i,
           r_issue_date = issue, r_due_date = due,
           r_client =
             \<lparr>cr_id = c_id c, cr_name = c_name c, cr_address = c_address c,
              cr_company_registration_no = c_company_registration_no c\<rparr>,
           r_address = inv_address i,
           r_items = map (\<lambda>(it, p).
                       \<lparr>ir_product_id = it_product_id it, ir_name = p_name p,
                        ir_unit_price = it_unit_price it, ir_quantity = it_quantity it,
                        ir_line_total = it_line_total it\<rparr>)
                     (items_with_products d invoice_id),
           r_tax = inv_tax i, r_total = inv_total i\<rparr>, d)"
proof -
  let ?conn = "\<lparr>db = d, pending = []\<rparr>"
  have tx: "get_invoice_tx rt invoice_id ?conn =
     (Inr \<lparr>r_id = inv_id i, r_invoice_no = inv_invoice_no i,
           r_issue_date = issue, r_due_date = due,
           r_client =
             \<lparr>cr_id = c_id c, cr_name = c_name c, cr_address = c_address c,
              cr_company_registration_no = c_company_registration_no c\<rparr>,
           r_address = inv_address i,
           r_items = map (\<lambda>(it, p).
                       \<lparr>ir_product_id = it_product_id it, ir_name = p_name p,
                        ir_unit_price = it_unit_price it, ir_quantity = it_quantity it,
                        ir_line_total = it_line_total it\<rparr>)
                     (items_with_products (db ?conn) invoice_id),
           r_tax = inv_tax i, r_total = inv_total i\<rparr>, ?conn)"
    using assms by (intro get_invoice_tx_found) simp_all
  have "get_db (get_invoice_tx rt invoice_id) [] d =
     (Inr \<lparr>r_id = inv_id i, r_invoice_no = inv_invoice_no i,
           r_issue_date = issue, r_due_date = due,
           r_client =
             \<lparr>cr_id = c_id c, cr_name = c_name c, cr_address = c_address c,
              cr_company_registration_no = c_company_registration_no c\<rparr>,
           r_address = inv_address i,
           r_items = map (\<lambda>(it, p).
                       \<lparr>ir_product_id = it_product_id it, ir_name = p_name p,
                        ir_unit_price = it_unit_price it, ir_quantity = it_quantity it,
                        ir_line_total = it_line_total it\<rparr>)
                     (items_with_products (db ?conn) invoice_id),
           r_tax = inv_tax i, r_total = inv_total i\<rparr>, db ?conn)"
    by (rule get_db_no_faults_Inr [where body = "get_invoice_tx rt invoice_id", OF tx]) simp
  then show ?thesis by (simp add: get_invoice_def)
qed

lemma invoice_with_client_new:
  assumes fresh: "\<forall>i \<in> set xs. inv_id i \<noteq> inv_id h"
  shows "[(i, c). i \<leftarrow> xs @ [h], c \<leftarrow> cs, c_id c = inv_client_id i, inv_id i = inv_id h] =
     map (Pair h) (filter (\<lambda>c. c_id c = inv_client_id h) cs)"
proof -
  have old: "[(i, c). i \<leftarrow> xs, c \<leftarrow> cs, c_id c = inv_client_id i, inv_id i = inv_id h] = []"
    using fresh by (intro join_none) simp
  have new: "[(i, c). i \<leftarrow> [h], c \<leftarrow> cs, c_id c = inv_client_id i, inv_id i = inv_id h] =
      map (Pair h) (filter (\<lambda>c. c_id c = inv_client_id h) cs)"
    by (subst join_Cons) (simp only: join_Nil simp_thms if_True append_Nil2)
  show ?thesis
    by (subst join_append) (simp only: old new append_Nil)
qed

lemma map_case_prod_fst: "map (\<lambda>(a, b). f a) xs = map f (map fst xs)"
  by (induction xs) auto

lemma items_with_products_new:
  assumes "distinct (map p_id ps)"
    and "\<forall>it \<in> set old. it_invoice_id it \<noteq> iid"
    and "map (\<lambda>r. (it_invoice_id r, it_product_id r, it_quantity r, it_unit_price r, it_line_total r)) new =
         map (\<lambda>r. (iid, ir_product_id r, ir_quantity r, ir_unit_price r, ir_line_total r)) rows"
    and "\<forall>row \<in> set rows. \<exists>pr. fetchone (filter (\<lambda>p. p_id p = ir_product_id row) ps) = Some pr \<and>
           ir_name row = p_name pr"
    and "sorted_wrt (<) (map it_id new)"
  shows "map (\<lambda>(it, p). \<lparr>ir_product_id = it_product_id it, ir_name = p_name p,
                 ir_unit_price = it_unit_price it, ir_quantity = it_quantity it,
                 ir_line_total = it_line_total it\<rparr>)
           (sort_key (\<lambda>(it, p). it_id it)
              [(it, p). it \<leftarrow> old @ new, p \<leftarrow> ps, p_id p = it_product_id it,
                        it_invoice_id it = iid]) = rows"
proof -
  let ?join = "\<lambda>xs. [(it, p). it \<leftarrow> xs, p \<leftarrow> ps, p_id p = it_product_id it,
                        it_invoice_id it = iid]"
  have none: "?join old = []"
    using assms(2) by (intro join_none) simp
  have split: "?join (old @ new) = ?join new"
    by (subst join_append) (simp only: none append_Nil)
  note j = join_new_items [OF assms(1) assms(3) assms(4)]
  have keys: "map (\<lambda>(it, p). it_id it) (?join new) = map it_id new"
  proof -
    have "map (\<lambda>(it, p). it_id it) (?join new) = map it_id (map fst (?join new))"
      by (rule map_case_prod_fst)
    also have "\<dots> = map it_id new" using j by (simp only:)
    finally show ?thesis .
  qed
  have "sorted (map it_id new)" using assms(5) by (rule strict_sorted_imp_sorted)
  then have "sorted (map (\<lambda>(it, p). it_id it) (?join new))" by (simp only: keys)
  then have "sort_key (\<lambda>(it, p). it_id it) (?join new) = ?join new"
    by (rule sort_key_id_if_sorted)
  then show ?thesis using j by (simp only: split)
qed

lemma delete_invoice_unbound:
  assumes "\<not> sqlite_int invoice_id"
  shows "delete_invoice invoice_id [] d =
     (Inl (HTTPException 500
        (''Database error: '' @ ''Python int too large to convert to SQLite INTEGER'')), d)"
proof -
  let ?conn = "\<lparr>db = d, pending = []\<rparr> :: 'a connection"
  let ?e = "Exception ''Python int too large to convert to SQLite INTEGER''"
  have s: "execute [invoice_id] (select (\<lambda>d. find_invoice d invoice_id)) ?conn = (Inl ?e, ?conn)"
    using assms by (intro execute_unbound) simp
  have tx: "delete_invoice_tx invoice_id ?conn = (Inl ?e, ?conn)"
    unfolding delete_invoice_tx_def
    by (rule and_then_fail
        [where m = "execute [invoice_id] (select (\<lambda>d. find_invoice d invoice_id))", OF s])
  show ?thesis
    unfolding delete_invoice_def
      get_db_no_faults_Inl [where body = "delete_invoice_tx invoice_id", OF tx]
    by (rule database_error_exception)
qed

lemma price_items_no_faults_prefix:
  "pending conn = [] \<Longrightarrow>
   \<forall>item \<in> set pre. sqlite_int (product_id item) \<and> fits_float rt (quantity item) \<and>
      find_product (db conn) (product_id item) \<noteq> None \<Longrightarrow>
   \<exists>rows t. price_items rt (pre @ rest) acc tot conn = price_items rt rest rows t conn"
proof (induction pre arbitrary: acc tot)
  case Nil
  show ?case by (intro exI [of _ acc] exI [of _ tot]) simp
next
  case (Cons item pre)
  then obtain pr where "find_product (db conn) (product_id item) = Some pr" by auto
  with Cons.prems Cons.IH show ?case
    by (simp add: and_then_step [OF fetch_product_no_faults] Let_def)
qed

lemma price_items_unbound:
  "\<not> sqlite_int (product_id item) \<Longrightarrow>
   price_items rt (item # rest) acc tot conn =
     (Inl (Exception ''Python int too large to convert to SQLite INTEGER''), conn)"
  by (simp add: fetch_product_def and_then_def execute_unbound)

lemma price_items_no_float:
  "pending conn = [] \<Longrightarrow> sqlite_int (product_id item) \<Longrightarrow>
   find_product (db conn) (product_id item) = Some pr \<Longrightarrow> \<not> fits_float rt (quantity item) \<Longrightarrow>
   price_items rt (item # rest) acc tot conn =
     (Inl (Exception ''int too large to convert to float''), conn)"
  by (simp add: and_then_step [OF fetch_product_no_faults] raise_def)

lemma create_invoice_loop_fails:
  assumes client: "find_client d (client_id payload) \<noteq> None"
    and number: "case truthy (invoice_no payload) of
             None \<Rightarrow> True | Some n \<Rightarrow> invoice_no_taken d n = None"
    and loop: "price_items rt (items payload) [] 0 \<lparr>db = d, pending = []\<rparr> =
      (Inl e, \<lparr>db = d, pending = []\<rparr>)"
  shows "create_invoice_tx rt payload \<lparr>db = d, pending = []\<rparr> = (Inl e, \<lparr>db = d, pending = []\<rparr>)"
    and "items payload \<noteq> [] \<Longrightarrow> create_invoice rt payload [] d = database_error (Inl e, d)"
proof -
  let ?conn = "\<lparr>db = d, pending = []\<rparr> :: 'a connection"
  from client obtain c where c: "find_client d (client_id payload) = Some c" by auto
  from number obtain no where no: "choose_invoice_no (invoice_no payload) ?conn = (Inr no, ?conn)"
    by (auto simp: choose_invoice_no_no_faults split: option.splits)
  have c1: "fetch_client (client_id payload) ?conn = (Inr (Some c), ?conn)"
    using c find_client_sqlite_int [OF c] by (simp add: fetch_client_no_faults)
  show tx: "create_invoice_tx rt payload ?conn = (Inl e, ?conn)"
    unfolding create_invoice_tx_def
    by (simp add: and_then_step [where m = "fetch_client (client_id payload)", OF c1]
        and_then_step [where m = "choose_invoice_no (invoice_no payload)", OF no]
        and_then_fail [where m = "price_items rt (items payload) [] 0", OF loop] Let_def)
  show "create_invoice rt payload [] d = database_error (Inl e, d)" if "items payload \<noteq> []"
    using that by (simp add: create_invoice_def
        get_db_no_faults_Inl [where body = "create_invoice_tx rt payload", OF tx])
qed

lemma create_invoice_fails_unchanged:
  assumes "\<And>resp d'. create_invoice rt payload fs d \<noteq> (Inr resp, d')"
  shows "\<exists>e. create_invoice rt payload fs d = (Inl e, d)"
proof (cases "create_invoice rt payload fs d")
  case (Pair r d')
  show ?thesis
  proof (cases r)
    case (Inl e)
    with Pair create_invoice_Inl [of rt payload fs d e d'] show ?thesis by simp
  next
    case (Inr resp)
    with Pair assms show ?thesis by simp
  qed
qed

section \<open>Creating an invoice\<close>

text \<open>
  C3. A create request whose list of items is empty fails with status 400 and leaves
  the database as it was, whatever the storage does: the test of line 70 comes before
  the connection is opened.
\<close>

theorem create_invoice_empty_items:
  "items payload = [] \<Longrightarrow>
     create_invoice rt payload fs d =
       (Inl (HTTPException 400 ''Invoice must include at least one item''), d)"
  by (simp add: create_invoice_def)

theorem create_invoice_empty_items_witness:
  "items (example_payload\<lparr>items := []\<rparr>) = [] \<and>
   create_invoice example_runtime (example_payload\<lparr>items := []\<rparr>) [Some ''disk I/O error''] upgrade =
     (Inl (HTTPException 400 ''Invoice must include at least one item''), upgrade)"
  using create_invoice_empty_items [of "example_payload\<lparr>items := []\<rparr>" example_runtime
      "[Some ''disk I/O error'']" upgrade]
  by simp

text \<open>
  C1. Whenever a create request succeeds, each returned item carries the price its
  product has in the database at the time of the call as \<open>unit_price\<close>, and that price
  times the quantity as \<open>line_total\<close>; the returned total is the sum of the line totals,
  accumulated from \<open>0\<close> in the order of the items, plus the tax; the stored invoice row
  has the same total, and the stored item rows have the same unit prices and line
  totals. The statement holds for every arithmetic on \<open>'f\<close>; where addition is
  associative and commutative the total is \<open>tax + (\<Sum> line_total)\<close>, which is
  \<open>create_invoice_total_exact\<close> below.
\<close>

theorem create_invoice_total:
  assumes "create_invoice rt payload fs d = (Inr resp, d')"
  shows "list_all2 (\<lambda>item row. \<exists>pr. find_product d (product_id item) = Some pr \<and>
            ir_unit_price row = p_price pr \<and> ir_quantity row = quantity item \<and>
            ir_line_total row = ir_unit_price row * float_of_int rt (quantity item))
           (items payload) (r_items resp) \<and>
         r_total resp = foldl (+) 0 (map ir_line_total (r_items resp)) + tax payload \<and>
         map inv_total (filter (\<lambda>i. inv_id i = r_id resp) (invoices d')) = [r_total resp] \<and>
         map (\<lambda>r. (it_invoice_id r, it_quantity r, it_unit_price r, it_line_total r))
             (drop (length (invoice_items d)) (invoice_items d')) =
           map (\<lambda>r. (r_id resp, ir_quantity r, ir_unit_price r, ir_line_total r)) (r_items resp)"
proof -
  from assms obtain conn conn' where c: "db conn = d" "db conn' = d'"
    and tx: "create_invoice_tx rt payload conn = (Inr resp, conn')"
    by (rule create_invoice_Inr)
  from tx obtain client rows new_items where
    priced: "list_all2 (\<lambda>item row. \<exists>pr. find_product (db conn) (product_id item) = Some pr \<and>
           row = \<lparr>ir_product_id = p_id pr, ir_name = p_name pr, ir_unit_price = p_price pr,
                   ir_quantity = quantity item,
                   ir_line_total = p_price pr * float_of_int rt (quantity item)\<rparr>)
       (items payload) rows"
    and resp: "resp =
       \<lparr>r_id = autoincrement (invoices_seq (db conn)) (map inv_id (invoices (db conn))),
        r_invoice_no = r_invoice_no resp,
        r_issue_date = issue_date payload, r_due_date = due_date payload,
        r_client =
          \<lparr>cr_id = c_id client, cr_name = c_name client, cr_address = c_address client,
           cr_company_registration_no = c_company_registration_no client\<rparr>,
        r_address = choose_address (address payload) client, r_items = rows,
        r_tax = tax payload,
        r_total = foldl (+) 0 (map ir_line_total rows) + tax payload\<rparr>"
    and hdr: "invoices (db conn') = invoices (db conn) @
       [\<lparr>inv_id = r_id resp, inv_invoice_no = r_invoice_no resp,
         inv_issue_date = isoformat rt (issue_date payload),
         inv_due_date = isoformat rt (due_date payload), inv_client_id = client_id payload,
         inv_address = r_address resp, inv_tax = tax payload, inv_total = r_total resp\<rparr>]"
    and its: "invoice_items (db conn') = invoice_items (db conn) @ new_items"
    and fields: "map (\<lambda>r. (it_invoice_id r, it_product_id r, it_quantity r, it_unit_price r, it_line_total r)) new_items =
       map (\<lambda>r. (r_id resp, ir_product_id r, ir_quantity r, ir_unit_price r, ir_line_total r)) rows"
    by (rule create_invoice_tx_Inr)
  have rows: "r_items resp = rows" by (subst resp) simp
  have rid: "r_id resp = autoincrement (invoices_seq d) (map inv_id (invoices d))"
    using c by (subst resp) simp
  have "list_all2 (\<lambda>item row. \<exists>pr. find_product d (product_id item) = Some pr \<and>
            ir_unit_price row = p_price pr \<and> ir_quantity row = quantity item \<and>
            ir_line_total row = ir_unit_price row * float_of_int rt (quantity item))
           (items payload) rows"
    using priced unfolding c by (rule list_all2_mono) auto
  moreover have "r_total resp = foldl (+) 0 (map ir_line_total rows) + tax payload"
    by (subst resp) simp
  moreover have "map inv_total (filter (\<lambda>i. inv_id i = r_id resp) (invoices d')) = [r_total resp]"
  proof -
    have "\<forall>i \<in> set (invoices d). inv_id i \<noteq> r_id resp"
      using autoincrement_gt_ids [of _ "map inv_id (invoices d)" "invoices_seq d"] rid by fastforce
    then have "filter (\<lambda>i. inv_id i = r_id resp) (invoices d) = []" by (rule filter_fresh_id)
    then show ?thesis using hdr c by simp
  qed
  moreover have "map (\<lambda>r. (it_invoice_id r, it_quantity r, it_unit_price r, it_line_total r))
             (drop (length (invoice_items d)) (invoice_items d')) =
           map (\<lambda>r. (r_id resp, ir_quantity r, ir_unit_price r, ir_line_total r)) rows"
  proof -
    have "drop (length (invoice_items d)) (invoice_items d') = new_items" using its c by simp
    moreover have "map (\<lambda>r. (it_invoice_id r, it_quantity r, it_unit_price r, it_line_total r)) new_items
        = map (\<lambda>(a, b, c). (a, c)) (map (\<lambda>r. (it_invoice_id r, it_product_id r, it_quantity r, it_unit_price r, it_line_total r)) new_items)"
      by simp
    ultimately show ?thesis unfolding fields by simp
  qed
  ultimately show ?thesis unfolding rows by blast
qed

theorem create_invoice_total_witness:
  "create_invoice example_runtime example_payload [] upgrade = (Inr example_response, example_db) \<and>
   r_total example_response = 3000 \<and>
   map ir_line_total (r_items example_response) = [3000] \<and>
   map inv_total (filter (\<lambda>i. inv_id i = 1) (invoices example_db)) = [3000]"
proof -
  have run: "create_invoice example_runtime example_payload [] upgrade =
      (Inr example_response, example_db)"
    by code_simp
  from create_invoice_total [OF run] have
    "r_total example_response =
       foldl (+) 0 (map ir_line_total (r_items example_response)) + tax example_payload"
    and "map inv_total (filter (\<lambda>i. inv_id i = r_id example_response) (invoices example_db)) =
       [r_total example_response]"
    by blast+
  with run show ?thesis
    by (simp add: example_response_def example_payload_def)
qed

text \<open>
  C2, as amended. The loop of lines 93 to 111 resolves the product of every item before
  the first \<^verbatim>\<open>INSERT\<close> of line 115. If the product of some item is missing, the request
  fails and the database is what it was, whatever the storage does. Which error it is
  depends on what the request meets first. When it reaches the loop (the client exists and
  an explicit number is not taken), the storage does not fail and every item before
  \<open>bad\<close> has a product id that is an \<^verbatim>\<open>INTEGER\<close> of SQLite, a product, and a quantity that
  converts to a float, then: if the product id of \<open>bad\<close> is such an integer and no product
  has it, the error is the 404 that names it, raised on a connection whose database is
  still unchanged; if the product id of \<open>bad\<close> is outside the 64-bit range, which no
  product can have, the driver raises \<^verbatim>\<open>OverflowError\<close> and the answer is 500; and if \<open>bad\<close>
  has a product but a quantity too large for a float, line 101 raises \<^verbatim>\<open>OverflowError\<close>
  and the answer is 500, also when a later item has no product.
\<close>

theorem create_invoice_missing_product:
  "((\<exists>item \<in> set (items payload). find_product d (product_id item) = None) \<longrightarrow>
      (\<exists>e. create_invoice rt payload fs d = (Inl e, d))) \<and>
   (find_client d (client_id payload) \<noteq> None \<and>
    (case truthy (invoice_no payload) of
       None \<Rightarrow> True | Some n \<Rightarrow> invoice_no_taken d n = None) \<and>
    items payload = pre @ bad # post \<and>
    (\<forall>item \<in> set pre. sqlite_int (product_id item) \<and> fits_float rt (quantity item) \<and>
       find_product d (product_id item) \<noteq> None) \<longrightarrow>
      (sqlite_int (product_id bad) \<and> find_product d (product_id bad) = None \<longrightarrow>
         create_invoice_tx rt payload \<lparr>db = d, pending = []\<rparr> =
           (Inl (HTTPException 404 (''Product not found: '' @ str_int (product_id bad))),
            \<lparr>db = d, pending = []\<rparr>) \<and>
         create_invoice rt payload [] d =
           (Inl (HTTPException 404 (''Product not found: '' @ str_int (product_id bad))), d)) \<and>
      (\<not> sqlite_int (product_id bad) \<longrightarrow>
         create_invoice rt payload [] d =
           (Inl (HTTPException 500
              ''Database error: Python int too large to convert to SQLite INTEGER''), d)) \<and>
      (sqlite_int (product_id bad) \<and> find_product d (product_id bad) \<noteq> None \<and>
       \<not> fits_float rt (quantity bad) \<longrightarrow>
         create_invoice rt payload [] d =
           (Inl (HTTPException 500 ''Database error: int too large to convert to float''), d)))"
proof (intro conjI impI)
  assume "\<exists>item \<in> set (items payload). find_product d (product_id item) = None"
  then obtain item where item: "item \<in> set (items payload)" "find_product d (product_id item) = None"
    by blast
  show "\<exists>e. create_invoice rt payload fs d = (Inl e, d)"
  proof (rule create_invoice_fails_unchanged)
    fix resp d'
    show "create_invoice rt payload fs d \<noteq> (Inr resp, d')"
    proof
      assume ok: "create_invoice rt payload fs d = (Inr resp, d')"
      from ok obtain conn conn' where c: "db conn = d"
        and tx: "create_invoice_tx rt payload conn = (Inr resp, conn')"
        by (rule create_invoice_Inr)
      from tx obtain rows where
        "list_all2 (\<lambda>item row. \<exists>pr. find_product (db conn) (product_id item) = Some pr \<and>
           row = \<lparr>ir_product_id = p_id pr, ir_name = p_name pr, ir_unit_price = p_price pr,
                   ir_quantity = quantity item,
                   ir_line_total = p_price pr * float_of_int rt (quantity item)\<rparr>)
         (items payload) rows"
        by (rule create_invoice_tx_Inr)
      with item(1) have "\<exists>pr. find_product (db conn) (product_id item) = Some pr"
        by (auto simp: list_all2_conv_all_nth in_set_conv_nth)
      with item(2) c show False by simp
    qed
  qed
next
  assume pre: "find_client d (client_id payload) \<noteq> None \<and>
    (case truthy (invoice_no payload) of
       None \<Rightarrow> True | Some n \<Rightarrow> invoice_no_taken d n = None) \<and>
    items payload = pre @ bad # post \<and>
    (\<forall>item \<in> set pre. sqlite_int (product_id item) \<and> fits_float rt (quantity item) \<and>
       find_product d (product_id item) \<noteq> None)"
  let ?conn = "\<lparr>db = d, pending = []\<rparr> :: 'a connection"
  from pre have its: "items payload = pre @ bad # post" and ne: "items payload \<noteq> []" by simp_all
  from pre have good: "\<forall>item \<in> set pre. sqlite_int (product_id item) \<and>
      fits_float rt (quantity item) \<and> find_product (db ?conn) (product_id item) \<noteq> None"
    by simp
  from pre have client: "find_client d (client_id payload) \<noteq> None" by simp
  from pre have number: "case truthy (invoice_no payload) of
       None \<Rightarrow> True | Some n \<Rightarrow> invoice_no_taken d n = None" by simp
  from price_items_no_faults_prefix [where conn = ?conn and rest = "bad # post", OF _ good]
  obtain rows t where
    run: "price_items rt (items payload) [] 0 ?conn = price_items rt (bad # post) rows t ?conn"
    unfolding its by fastforce
  {
    assume bad: "sqlite_int (product_id bad) \<and> find_product d (product_id bad) = None"
    let ?err = "HTTPException 404 (''Product not found: '' @ str_int (product_id bad))"
    have "price_items rt (pre @ bad # post) [] 0 ?conn = (Inl ?err, ?conn)"
      using good bad by (intro price_items_no_faults_missing) simp_all
    then have loop: "price_items rt (items payload) [] 0 ?conn = (Inl ?err, ?conn)"
      by (simp only: its)
    show "create_invoice_tx rt payload ?conn = (Inl ?err, ?conn)"
      by (rule create_invoice_loop_fails(1) [OF client number loop])
    show "create_invoice rt payload [] d = (Inl ?err, d)"
      using create_invoice_loop_fails(2) [OF client number loop ne] by simp
  }
  {
    assume bad: "\<not> sqlite_int (product_id bad)"
    let ?e = "Exception ''Python int too large to convert to SQLite INTEGER''"
    have loop: "price_items rt (items payload) [] 0 ?conn = (Inl ?e, ?conn)"
      unfolding run using bad by (rule price_items_unbound)
    show "create_invoice rt payload [] d =
           (Inl (HTTPException 500
              ''Database error: Python int too large to convert to SQLite INTEGER''), d)"
      using create_invoice_loop_fails(2) [OF client number loop ne] by simp
  }
  {
    assume bad: "sqlite_int (product_id bad) \<and> find_product d (product_id bad) \<noteq> None \<and>
       \<not> fits_float rt (quantity bad)"
    let ?e = "Exception ''int too large to convert to float''"
    from bad obtain pr where pr: "find_product (db ?conn) (product_id bad) = Some pr" by auto
    have loop: "price_items rt (items payload) [] 0 ?conn = (Inl ?e, ?conn)"
      unfolding run using bad pr by (intro price_items_no_float) simp_all
    show "create_invoice rt payload [] d =
           (Inl (HTTPException 500 ''Database error: int too large to convert to float''), d)"
      using create_invoice_loop_fails(2) [OF client number loop ne] by simp
  }
qed

theorem create_invoice_missing_product_counterexample:
  "find_product upgrade 9223372036854775808 = None \<and>
   create_invoice example_runtime
     (example_payload\<lparr>items := [\<lparr>product_id = 9223372036854775808, quantity = 1\<rparr>]\<rparr>)
     [] upgrade =
     (Inl (HTTPException 500
        ''Database error: Python int too large to convert to SQLite INTEGER''), upgrade)"
proof -
  let ?bad = "\<lparr>product_id = 9223372036854775808, quantity = 1\<rparr>"
  let ?p = "example_payload\<lparr>items := [?bad]\<rparr>"
  let ?conn = "\<lparr>db = upgrade, pending = []\<rparr> :: real connection"
  let ?e = "Exception ''Python int too large to convert to SQLite INTEGER''"
  have missing: "find_product upgrade 9223372036854775808 = None" by code_simp
  have client: "find_client upgrade (client_id ?p) \<noteq> None" by code_simp
  have number: "case truthy (invoice_no ?p) of
      None \<Rightarrow> True | Some n \<Rightarrow> invoice_no_taken upgrade n = None" by code_simp
  have "\<not> sqlite_int (product_id ?bad)" by code_simp
  then have "price_items example_runtime [?bad] [] 0 ?conn = (Inl ?e, ?conn)"
    by (rule price_items_unbound)
  then have loop: "price_items example_runtime (items ?p) [] 0 ?conn = (Inl ?e, ?conn)" by simp
  have "items ?p \<noteq> []" by simp
  from create_invoice_loop_fails(2) [OF client number loop this] missing
  show ?thesis by simp
qed

theorem create_invoice_missing_product_witness:
  "create_invoice example_runtime
     (example_payload\<lparr>items := [\<lparr>product_id = 1, quantity = 2\<rparr>, \<lparr>product_id = 99, quantity = 1\<rparr>]\<rparr>)
     [] upgrade =
     (Inl (HTTPException 404 ''Product not found: 99''), upgrade) \<and>
   create_invoice example_runtime
     (example_payload\<lparr>items := [\<lparr>product_id = 1, quantity = 2\<rparr>,
        \<lparr>product_id = - 9223372036854775809, quantity = 1\<rparr>]\<rparr>)
     [] upgrade =
     (Inl (HTTPException 500
        ''Database error: Python int too large to convert to SQLite INTEGER''), upgrade) \<and>
   create_invoice double_runtime
     (example_payload\<lparr>items := [\<lparr>product_id = 1, quantity = 2 ^ 1024\<rparr>,
        \<lparr>product_id = 99, quantity = 1\<rparr>]\<rparr>)
     [] upgrade =
     (Inl (HTTPException 500 ''Database error: int too large to convert to float''), upgrade)"
proof -
  let ?one = "\<lparr>product_id = 1, quantity = 2\<rparr>"
  let ?missing = "\<lparr>product_id = 99, quantity = 1\<rparr>"
  let ?outside = "\<lparr>product_id = - 9223372036854775809, quantity = 1\<rparr>"
  let ?huge = "\<lparr>product_id = 1, quantity = 2 ^ 1024\<rparr>"
  let ?p = "example_payload\<lparr>items := [?one, ?missing]\<rparr>"
  let ?q = "example_payload\<lparr>items := [?one, ?outside]\<rparr>"
  let ?r = "example_payload\<lparr>items := [?huge, ?missing]\<rparr>"
  have reaches_p: "find_client upgrade (client_id ?p) \<noteq> None \<and>
      (case truthy (invoice_no ?p) of None \<Rightarrow> True | Some n \<Rightarrow> invoice_no_taken upgrade n = None) \<and>
      items ?p = [?one] @ ?missing # [] \<and>
      (\<forall>item \<in> set [?one]. sqlite_int (product_id item) \<and>
         fits_float example_runtime (quantity item) \<and>
         find_product upgrade (product_id item) \<noteq> None)"
    by code_simp
  have missing: "sqlite_int (product_id ?missing) \<and> find_product upgrade (product_id ?missing) = None"
    by code_simp
  have msg: "''Product not found: '' @ str_int (product_id ?missing) = ''Product not found: 99''"
    by code_simp
  from create_invoice_missing_product [where payload = ?p and d = upgrade and rt = example_runtime
      and pre = "[?one]" and bad = ?missing and post = "[]" and fs = "[]"] reaches_p missing
  have a: "create_invoice example_runtime ?p [] upgrade =
      (Inl (HTTPException 404 (''Product not found: '' @ str_int (product_id ?missing))), upgrade)"
    by blast
  have reaches_q: "find_client upgrade (client_id ?q) \<noteq> None \<and>
      (case truthy (invoice_no ?q) of None \<Rightarrow> True | Some n \<Rightarrow> invoice_no_taken upgrade n = None) \<and>
      items ?q = [?one] @ ?outside # [] \<and>
      (\<forall>item \<in> set [?one]. sqlite_int (product_id item) \<and>
         fits_float example_runtime (quantity item) \<and>
         find_product upgrade (product_id item) \<noteq> None)"
    by code_simp
  have outside: "\<not> sqlite_int (product_id ?outside)" by code_simp
  from create_invoice_missing_product [where payload = ?q and d = upgrade and rt = example_runtime
      and pre = "[?one]" and bad = ?outside and post = "[]" and fs = "[]"] reaches_q outside
  have b: "create_invoice example_runtime ?q [] upgrade =
      (Inl (HTTPException 500
        ''Database error: Python int too large to convert to SQLite INTEGER''), upgrade)"
    by blast
  have reaches_r: "find_client upgrade (client_id ?r) \<noteq> None \<and>
      (case truthy (invoice_no ?r) of None \<Rightarrow> True | Some n \<Rightarrow> invoice_no_taken upgrade n = None) \<and>
      items ?r = [] @ ?huge # [?missing] \<and>
      (\<forall>item \<in> set []. sqlite_int (product_id item) \<and>
         fits_float double_runtime (quantity item) \<and>
         find_product upgrade (product_id item) \<noteq> None)"
    by code_simp
  have huge: "sqlite_int (product_id ?huge) \<and> find_product upgrade (product_id ?huge) \<noteq> None \<and>
       \<not> fits_float double_runtime (quantity ?huge)"
    by code_simp
  from create_invoice_missing_product [where payload = ?r and d = upgrade and rt = double_runtime
      and pre = "[]" and bad = ?huge and post = "[?missing]" and fs = "[]"] reaches_r huge
  have c: "create_invoice double_runtime ?r [] upgrade =
      (Inl (HTTPException 500 ''Database error: int too large to convert to float''), upgrade)"
    by blast
  from a [unfolded msg] b c show ?thesis by blast
qed

text \<open>
  C4, as amended. For a create request whose explicit invoice number is not the empty
  string: if the request has an item, its client exists, an invoice with that number
  exists and the storage does not fail, the request fails with status 409 and the
  database is unchanged; and whenever the request succeeds, no invoice had the number,
  the response carries the number as supplied and so does the stored invoice row. The
  empty string is not used as it stands: the counterexample supplies it and gets a
  generated number.
\<close>

theorem create_invoice_explicit_number:
  assumes "invoice_no payload = Some n" and "n \<noteq> []"
  shows "(items payload \<noteq> [] \<and> find_client d (client_id payload) \<noteq> None \<and>
          invoice_no_taken d n \<noteq> None \<longrightarrow>
            create_invoice rt payload [] d =
              (Inl (HTTPException 409 ''Invoice number already exists''), d)) \<and>
         (create_invoice rt payload fs d = (Inr resp, d') \<longrightarrow>
            invoice_no_taken d n = None \<and> r_invoice_no resp = n \<and>
            map inv_invoice_no (filter (\<lambda>i. inv_id i = r_id resp) (invoices d')) = [n])"
proof (intro conjI impI)
  from assms have t: "truthy (invoice_no payload) = Some n" by (simp add: truthy_Some)
  {
    assume pre: "items payload \<noteq> [] \<and> find_client d (client_id payload) \<noteq> None \<and>
          invoice_no_taken d n \<noteq> None"
    let ?conn = "\<lparr>db = d, pending = []\<rparr> :: 'a connection"
    let ?err = "HTTPException 409 ''Invoice number already exists''"
    from pre obtain client where client: "find_client d (client_id payload) = Some client" by auto
    have c1: "fetch_client (client_id payload) ?conn = (Inr (Some client), ?conn)"
      using client find_client_sqlite_int [OF client] by (simp add: fetch_client_no_faults)
    have c2: "choose_invoice_no (invoice_no payload) ?conn = (Inl ?err, ?conn)"
      using pre t by (auto simp: choose_invoice_no_no_faults)
    have tx: "create_invoice_tx rt payload ?conn = (Inl ?err, ?conn)"
      unfolding create_invoice_tx_def
      by (simp add: and_then_step [where m = "fetch_client (client_id payload)", OF c1]
          and_then_fail [where m = "choose_invoice_no (invoice_no payload)", OF c2])
    from pre show "create_invoice rt payload [] d = (Inl ?err, d)"
      by (simp add: create_invoice_def
          get_db_no_faults_Inl [where body = "create_invoice_tx rt payload", OF tx])
  }
  assume ok: "create_invoice rt payload fs d = (Inr resp, d')"
  from ok obtain conn conn' where c: "db conn = d" "db conn' = d'"
    and tx: "create_invoice_tx rt payload conn = (Inr resp, conn')"
    by (rule create_invoice_Inr)
  from tx obtain client rows where
    no: "r_invoice_no resp =
       (case truthy (invoice_no payload) of
          Some n \<Rightarrow> n | None \<Rightarrow> ''INV-'' @ format_05d (next_id (db conn)))"
    and free: "r_invoice_no resp \<notin> set (map inv_invoice_no (invoices (db conn)))"
    and rid: "resp =
       \<lparr>r_id = autoincrement (invoices_seq (db conn)) (map inv_id (invoices (db conn))),
        r_invoice_no = r_invoice_no resp,
        r_issue_date = issue_date payload, r_due_date = due_date payload,
        r_client =
          \<lparr>cr_id = c_id client, cr_name = c_name client, cr_address = c_address client,
           cr_company_registration_no = c_company_registration_no client\<rparr>,
        r_address = choose_address (address payload) client, r_items = rows,
        r_tax = tax payload,
        r_total = foldl (+) 0 (map ir_line_total rows) + tax payload\<rparr>"
    and hdr: "invoices (db conn') = invoices (db conn) @
       [\<lparr>inv_id = r_id resp, inv_invoice_no = r_invoice_no resp,
         inv_issue_date = isoformat rt (issue_date payload),
         inv_due_date = isoformat rt (due_date payload), inv_client_id = client_id payload,
         inv_address = r_address resp, inv_tax = tax payload, inv_total = r_total resp\<rparr>]"
    by (rule create_invoice_tx_Inr)
  from no t show n: "r_invoice_no resp = n" by simp
  from free n c show "invoice_no_taken d n = None" by (simp add: invoice_no_taken_None)
  have "r_id resp = autoincrement (invoices_seq d) (map inv_id (invoices d))"
    using c by (subst rid) simp
  then have "\<forall>i \<in> set (invoices d). inv_id i \<noteq> r_id resp"
    using autoincrement_gt_ids [of _ "map inv_id (invoices d)" "invoices_seq d"] by fastforce
  then have "filter (\<lambda>i. inv_id i = r_id resp) (invoices d) = []" by (rule filter_fresh_id)
  then show "map inv_invoice_no (filter (\<lambda>i. inv_id i = r_id resp) (invoices d')) = [n]"
    using hdr c n by simp
qed

theorem create_invoice_explicit_number_counterexample:
  "invoice_no (example_payload\<lparr>invoice_no := Some []\<rparr>) = Some [] \<and>
   create_invoice example_runtime (example_payload\<lparr>invoice_no := Some []\<rparr>) [] upgrade =
     (Inr example_response, example_db) \<and>
   r_invoice_no example_response = ''INV-00001'' \<and>
   map inv_invoice_no (invoices example_db) = [''INV-00001'']"
  by code_simp

theorem create_invoice_explicit_number_witness:
  "create_invoice example_runtime (example_payload\<lparr>invoice_no := Some ''INV-00001''\<rparr>) []
     example_db =
     (Inl (HTTPException 409 ''Invoice number already exists''), example_db) \<and>
   fst (create_invoice example_runtime (example_payload\<lparr>invoice_no := Some ''2026/A-7''\<rparr>) []
     example_db) = Inr (example_response\<lparr>r_id := 2, r_invoice_no := ''2026/A-7''\<rparr>) \<and>
   map inv_invoice_no (filter (\<lambda>i. inv_id i = 2)
     (invoices (snd (create_invoice example_runtime
        (example_payload\<lparr>invoice_no := Some ''2026/A-7''\<rparr>) [] example_db)))) = [''2026/A-7'']"
proof -
  let ?taken = "example_payload\<lparr>invoice_no := Some ''INV-00001''\<rparr>"
  let ?free = "example_payload\<lparr>invoice_no := Some ''2026/A-7''\<rparr>"
  let ?resp = "example_response\<lparr>r_id := 2, r_invoice_no := ''2026/A-7''\<rparr>"
  have reaches: "items ?taken \<noteq> [] \<and> find_client example_db (client_id ?taken) \<noteq> None \<and>
      invoice_no_taken example_db ''INV-00001'' \<noteq> None"
    by code_simp
  have conflict: "create_invoice example_runtime ?taken [] example_db =
      (Inl (HTTPException 409 ''Invoice number already exists''), example_db)"
    using create_invoice_explicit_number [where payload = ?taken and n = "''INV-00001''"
        and d = example_db and rt = example_runtime] reaches by simp
  have run: "create_invoice example_runtime ?free [] example_db =
      (Inr ?resp, snd (create_invoice example_runtime ?free [] example_db))"
    by code_simp
  have rid: "r_id ?resp = 2" by simp
  from create_invoice_explicit_number [where payload = ?free and n = "''2026/A-7''"
      and rt = example_runtime and fs = "[]" and d = example_db and resp = ?resp
      and d' = "snd (create_invoice example_runtime ?free [] example_db)"] run
  have stored: "map inv_invoice_no (filter (\<lambda>i. inv_id i = r_id ?resp)
     (invoices (snd (create_invoice example_runtime ?free [] example_db)))) = [''2026/A-7'']"
    by simp
  from run have "fst (create_invoice example_runtime ?free [] example_db) = Inr ?resp"
    by (metis fst_conv)
  with conflict stored [unfolded rid] show ?thesis by blast
qed

text \<open>
  C8, as amended. Whenever a create request succeeds, the address returned and stored
  is the explicit address of the request when that is supplied and is not the empty
  string, and otherwise the stored address of the client. An explicit empty string is
  not stored: the counterexample supplies it and the invoice gets the client's address.
\<close>

theorem create_invoice_address:
  assumes "create_invoice rt payload fs d = (Inr resp, d')"
  shows "\<exists>client. find_client d (client_id payload) = Some client \<and>
           r_address resp =
             (case address payload of
                None \<Rightarrow> c_address client
              | Some a \<Rightarrow> if a = [] then c_address client else a) \<and>
           map inv_address (filter (\<lambda>i. inv_id i = r_id resp) (invoices d')) = [r_address resp]"
proof -
  from assms obtain conn conn' where c: "db conn = d" "db conn' = d'"
    and tx: "create_invoice_tx rt payload conn = (Inr resp, conn')"
    by (rule create_invoice_Inr)
  from tx obtain client rows where
    client: "find_client (db conn) (client_id payload) = Some client"
    and rid: "resp =
       \<lparr>r_id = autoincrement (invoices_seq (db conn)) (map inv_id (invoices (db conn))),
        r_invoice_no = r_invoice_no resp,
        r_issue_date = issue_date payload, r_due_date = due_date payload,
        r_client =
          \<lparr>cr_id = c_id client, cr_name = c_name client, cr_address = c_address client,
           cr_company_registration_no = c_company_registration_no client\<rparr>,
        r_address = choose_address (address payload) client, r_items = rows,
        r_tax = tax payload,
        r_total = foldl (+) 0 (map ir_line_total rows) + tax payload\<rparr>"
    and hdr: "invoices (db conn') = invoices (db conn) @
       [\<lparr>inv_id = r_id resp, inv_invoice_no = r_invoice_no resp,
         inv_issue_date = isoformat rt (issue_date payload),
         inv_due_date = isoformat rt (due_date payload), inv_client_id = client_id payload,
         inv_address = r_address resp, inv_tax = tax payload, inv_total = r_total resp\<rparr>]"
    by (rule create_invoice_tx_Inr)
  have "r_address resp = choose_address (address payload) client" by (subst rid) simp
  then have addr: "r_address resp =
             (case address payload of
                None \<Rightarrow> c_address client
              | Some a \<Rightarrow> if a = [] then c_address client else a)"
    by (simp add: choose_address_def truthy_def split: option.splits)
  have "r_id resp = autoincrement (invoices_seq d) (map inv_id (invoices d))"
    using c by (subst rid) simp
  then have "\<forall>i \<in> set (invoices d). inv_id i \<noteq> r_id resp"
    using autoincrement_gt_ids [of _ "map inv_id (invoices d)" "invoices_seq d"] by fastforce
  then have "filter (\<lambda>i. inv_id i = r_id resp) (invoices d) = []" by (rule filter_fresh_id)
  then have stored:
    "map inv_address (filter (\<lambda>i. inv_id i = r_id resp) (invoices d')) = [r_address resp]"
    using hdr c by simp
  show ?thesis
  proof (intro exI [of _ client] conjI)
    show "find_client d (client_id payload) = Some client" using client c by simp
    show "r_address resp =
             (case address payload of
                None \<Rightarrow> c_address client
              | Some a \<Rightarrow> if a = [] then c_address client else a)" by (fact addr)
    show "map inv_address (filter (\<lambda>i. inv_id i = r_id resp) (invoices d')) = [r_address resp]"
      by (fact stored)
  qed
qed

theorem create_invoice_address_counterexample:
  "address (example_payload\<lparr>address := Some []\<rparr>) = Some [] \<and>
   create_invoice example_runtime (example_payload\<lparr>address := Some []\<rparr>) [] upgrade =
     (Inr example_response, example_db) \<and>
   r_address example_response = ''100 Market Street, Springfield'' \<and>
   map inv_address (invoices example_db) = [''100 Market Street, Springfield'']"
  by code_simp

theorem create_invoice_address_witness:
  "fst (create_invoice example_runtime (example_payload\<lparr>address := Some ''1 Side Road''\<rparr>) []
     upgrade) = Inr (example_response\<lparr>r_address := ''1 Side Road''\<rparr>) \<and>
   map inv_address (filter (\<lambda>i. inv_id i = 1)
     (invoices (snd (create_invoice example_runtime
        (example_payload\<lparr>address := Some ''1 Side Road''\<rparr>) [] upgrade)))) = [''1 Side Road'']"
proof -
  let ?p = "example_payload\<lparr>address := Some ''1 Side Road''\<rparr>"
  let ?resp = "example_response\<lparr>r_address := ''1 Side Road''\<rparr>"
  have run: "create_invoice example_runtime ?p [] upgrade =
      (Inr ?resp, snd (create_invoice example_runtime ?p [] upgrade))"
    by code_simp
  have rid: "r_id ?resp = 1" by (simp add: example_response_def)
  from create_invoice_address [OF run]
  have "map inv_address (filter (\<lambda>i. inv_id i = r_id ?resp)
     (invoices (snd (create_invoice example_runtime ?p [] upgrade)))) = [r_address ?resp]"
    by blast
  moreover from run have "fst (create_invoice example_runtime ?p [] upgrade) = Inr ?resp"
    by (metis fst_conv)
  ultimately show ?thesis unfolding rid by simp
qed

section \<open>Deleting an invoice\<close>

text \<open>
  C7, as amended. The id of the request is bound to the statements of lines 297, 301 and
  302, so what \<^verbatim>\<open>delete_invoice\<close> answers depends on whether the id is an \<^verbatim>\<open>INTEGER\<close> of
  SQLite. With a storage that does not fail: for such an id that no invoice has, the
  answer is 404 and the database is as it was; for such an id that an invoice has, the
  request succeeds and the database it leaves differs from the old one only in that the
  item rows of that invoice and the invoice row itself are gone, after which
  \<^verbatim>\<open>get_invoice\<close> on the id answers 404; for an id outside the 64-bit range, which no
  invoice can have, the driver raises \<^verbatim>\<open>OverflowError\<close> and the answer is 500, the database
  as it was. Whatever the id and whatever the storage does, the tables of clients and
  products are unchanged.
\<close>

theorem delete_invoice_removes:
  "(sqlite_int invoice_id \<and> find_invoice d invoice_id = None \<longrightarrow>
      delete_invoice invoice_id [] d = (Inl (HTTPException 404 ''Invoice not found''), d)) \<and>
   (sqlite_int invoice_id \<and> find_invoice d invoice_id \<noteq> None \<longrightarrow>
      delete_invoice invoice_id [] d =
        (Inr (), d\<lparr>invoice_items :=
                    filter (\<lambda>it. it_invoice_id it \<noteq> invoice_id) (invoice_items d),
                  invoices := filter (\<lambda>i. inv_id i \<noteq> invoice_id) (invoices d)\<rparr>) \<and>
      get_invoice rt invoice_id [] (snd (delete_invoice invoice_id [] d)) =
        (Inl (HTTPException 404 ''Invoice not found''), snd (delete_invoice invoice_id [] d))) \<and>
   (\<not> sqlite_int invoice_id \<longrightarrow>
      delete_invoice invoice_id [] d =
        (Inl (HTTPException 500
           ''Database error: Python int too large to convert to SQLite INTEGER''), d)) \<and>
   clients (snd (delete_invoice invoice_id fs d)) = clients d \<and>
   products (snd (delete_invoice invoice_id fs d)) = products d"
proof (intro conjI impI)
  show "delete_invoice invoice_id [] d = (Inl (HTTPException 404 ''Invoice not found''), d)"
    if "sqlite_int invoice_id \<and> find_invoice d invoice_id = None"
    using that by (simp add: delete_invoice_no_faults)
  show del: "delete_invoice invoice_id [] d =
        (Inr (), d\<lparr>invoice_items :=
                    filter (\<lambda>it. it_invoice_id it \<noteq> invoice_id) (invoice_items d),
                  invoices := filter (\<lambda>i. inv_id i \<noteq> invoice_id) (invoices d)\<rparr>)"
    if "sqlite_int invoice_id \<and> find_invoice d invoice_id \<noteq> None"
    using that by (auto simp: delete_invoice_no_faults)
  show "get_invoice rt invoice_id [] (snd (delete_invoice invoice_id [] d)) =
        (Inl (HTTPException 404 ''Invoice not found''), snd (delete_invoice invoice_id [] d))"
    if "sqlite_int invoice_id \<and> find_invoice d invoice_id \<noteq> None"
    unfolding del [OF that] using that by (intro get_invoice_missing) simp_all
  show "delete_invoice invoice_id [] d =
        (Inl (HTTPException 500
           ''Database error: Python int too large to convert to SQLite INTEGER''), d)"
    if "\<not> sqlite_int invoice_id"
    using delete_invoice_unbound [OF that, of d] by simp
  show "clients (snd (delete_invoice invoice_id fs d)) = clients d"
    using delete_invoice_snd [of invoice_id fs d] by auto
  show "products (snd (delete_invoice invoice_id fs d)) = products d"
    using delete_invoice_snd [of invoice_id fs d] by auto
qed

theorem delete_invoice_removes_counterexample:
  "find_invoice example_db 9223372036854775808 = None \<and>
   delete_invoice 9223372036854775808 [] example_db =
     (Inl (HTTPException 500
        ''Database error: Python int too large to convert to SQLite INTEGER''), example_db)"
  by code_simp

theorem delete_invoice_removes_witness:
  "delete_invoice 7 [] example_db = (Inl (HTTPException 404 ''Invoice not found''), example_db) \<and>
   delete_invoice 1 [] example_db = (Inr (), upgrade\<lparr>invoices_seq := 1, invoice_items_seq := 1\<rparr>) \<and>
   get_invoice example_runtime 1 [] (snd (delete_invoice 1 [] example_db)) =
     (Inl (HTTPException 404 ''Invoice not found''), snd (delete_invoice 1 [] example_db)) \<and>
   delete_invoice (- 9223372036854775809) [] example_db =
     (Inl (HTTPException 500
        ''Database error: Python int too large to convert to SQLite INTEGER''), example_db) \<and>
   clients (snd (delete_invoice 1 [] example_db)) = clients example_db \<and>
   products (snd (delete_invoice 1 [] example_db)) = products example_db"
proof -
  have absent: "sqlite_int 7 \<and> find_invoice example_db 7 = None" by code_simp
  have present: "sqlite_int 1 \<and> find_invoice example_db 1 \<noteq> None" by code_simp
  have outside: "\<not> sqlite_int (- 9223372036854775809)" by code_simp
  have after: "example_db\<lparr>invoice_items :=
                    filter (\<lambda>it. it_invoice_id it \<noteq> 1) (invoice_items example_db),
                  invoices := filter (\<lambda>i. inv_id i \<noteq> 1) (invoices example_db)\<rparr> =
               upgrade\<lparr>invoices_seq := 1, invoice_items_seq := 1\<rparr>"
    by code_simp
  from delete_invoice_removes [of 7 example_db example_runtime "[]"] absent
  have a: "delete_invoice 7 [] example_db = (Inl (HTTPException 404 ''Invoice not found''), example_db)"
    by blast
  from delete_invoice_removes [of 1 example_db example_runtime "[]"] present
  have b: "delete_invoice 1 [] example_db =
        (Inr (), example_db\<lparr>invoice_items :=
                    filter (\<lambda>it. it_invoice_id it \<noteq> 1) (invoice_items example_db),
                  invoices := filter (\<lambda>i. inv_id i \<noteq> 1) (invoices example_db)\<rparr>)"
    and c: "get_invoice example_runtime 1 [] (snd (delete_invoice 1 [] example_db)) =
     (Inl (HTTPException 404 ''Invoice not found''), snd (delete_invoice 1 [] example_db))"
    and d: "clients (snd (delete_invoice 1 [] example_db)) = clients example_db"
    and e: "products (snd (delete_invoice 1 [] example_db)) = products example_db"
    by blast+
  from delete_invoice_removes [of "- 9223372036854775809" example_db example_runtime "[]"] outside
  have f: "delete_invoice (- 9223372036854775809) [] example_db =
     (Inl (HTTPException 500
        ''Database error: Python int too large to convert to SQLite INTEGER''), example_db)"
    by blast
  from a b [unfolded after] c d e f show ?thesis by blast
qed

text \<open>
  C10. A create request whose explicit invoice number is the empty string does exactly
  what the same request without a number does, whatever the storage does: the lookup of
  line 83 is skipped and, when the request succeeds, its number is the generated one.
  So no request ever stores an empty invoice number: if every stored number is
  non-empty, it is still so after any sequence of requests.
\<close>

theorem empty_invoice_no_generated:
  "create_invoice rt (payload\<lparr>invoice_no := Some []\<rparr>) fs d =
     create_invoice rt (payload\<lparr>invoice_no := None\<rparr>) fs d \<and>
   (create_invoice rt (payload\<lparr>invoice_no := Some []\<rparr>) fs d = (Inr resp, d') \<longrightarrow>
      r_invoice_no resp = ''INV-'' @ format_05d (next_id d)) \<and>
   ((\<forall>i \<in> set (invoices d). inv_invoice_no i \<noteq> []) \<longrightarrow>
      (\<forall>i \<in> set (invoices (serve_all rt rqs d)). inv_invoice_no i \<noteq> []))"
proof (intro conjI impI)
  show "create_invoice rt (payload\<lparr>invoice_no := Some []\<rparr>) fs d =
     create_invoice rt (payload\<lparr>invoice_no := None\<rparr>) fs d"
    by (rule create_invoice_empty_no)
  show "r_invoice_no resp = ''INV-'' @ format_05d (next_id d)"
    if ok: "create_invoice rt (payload\<lparr>invoice_no := Some []\<rparr>) fs d = (Inr resp, d')"
  proof -
    from ok obtain client rows new_items where
      "r_invoice_no resp =
         (case truthy (invoice_no (payload\<lparr>invoice_no := Some []\<rparr>)) of
            Some n \<Rightarrow> n | None \<Rightarrow> ''INV-'' @ format_05d (next_id d))"
      by (rule create_invoice_db)
    then show ?thesis by (simp add: truthy_def)
  qed
  show "\<forall>i \<in> set (invoices (serve_all rt rqs d)). inv_invoice_no i \<noteq> []"
    if "\<forall>i \<in> set (invoices d). inv_invoice_no i \<noteq> []"
    using serve_nonempty_numbers that
    by (rule serve_all_invariant [where P = "\<lambda>d. \<forall>i \<in> set (invoices d). inv_invoice_no i \<noteq> []"])
qed

theorem empty_invoice_no_generated_witness:
  "create_invoice example_runtime (example_payload\<lparr>invoice_no := Some []\<rparr>) [] upgrade =
     (Inr example_response, example_db) \<and>
   r_invoice_no example_response = ''INV-00001'' \<and>
   list_all (\<lambda>i. inv_invoice_no i \<noteq> [])
     (invoices (serve_all example_runtime
        [(Create (example_payload\<lparr>invoice_no := Some []\<rparr>), []),
         (Create (example_payload\<lparr>invoice_no := Some ''2026/A-7''\<rparr>), []),
         (Delete 1, []),
         (Create (example_payload\<lparr>invoice_no := Some []\<rparr>), [])] upgrade)) \<and>
   length (invoices (serve_all example_runtime
        [(Create (example_payload\<lparr>invoice_no := Some []\<rparr>), []),
         (Create (example_payload\<lparr>invoice_no := Some ''2026/A-7''\<rparr>), []),
         (Delete 1, []),
         (Create (example_payload\<lparr>invoice_no := Some []\<rparr>), [])] upgrade)) = 2"
proof -
  let ?rqs = "[(Create (example_payload\<lparr>invoice_no := Some []\<rparr>), []),
         (Create (example_payload\<lparr>invoice_no := Some ''2026/A-7''\<rparr>), []),
         (Delete 1, []),
         (Create (example_payload\<lparr>invoice_no := Some []\<rparr>), [])]
         :: ((real, string) request \<times> string option list) list"
  have run: "create_invoice example_runtime (example_payload\<lparr>invoice_no := Some []\<rparr>) [] upgrade =
     (Inr example_response, example_db)"
    by code_simp
  have start: "\<forall>i \<in> set (invoices upgrade). inv_invoice_no i \<noteq> []"
    by (simp add: upgrade_def)
  have n: "''INV-'' @ format_05d (next_id upgrade) = ''INV-00001''" by code_simp
  have len: "length (invoices (serve_all example_runtime ?rqs upgrade)) = 2" by code_simp
  note inst = empty_invoice_no_generated [where rt = example_runtime and payload = example_payload
      and fs = "[]" and d = upgrade and resp = example_response and d' = example_db
      and rqs = ?rqs]
  from inst run have "r_invoice_no example_response = ''INV-'' @ format_05d (next_id upgrade)"
    by blast
  moreover from inst start
  have "\<forall>i \<in> set (invoices (serve_all example_runtime ?rqs upgrade)). inv_invoice_no i \<noteq> []"
    by blast
  ultimately show ?thesis using run len unfolding n by (simp add: list_all_iff)
qed

text \<open>
  C5, as amended. When a create request without a usable explicit number succeeds, its
  invoice number is \<^verbatim>\<open>INV-\<close> followed by \<open>next_id\<close> in decimal, padded with zeros to at
  least five characters (exactly five below 100000), where \<open>next_id\<close> is one more than
  the largest primary key among the stored invoices (1 when there is none); and no stored
  invoice had that number. Over every sequence of requests the stored invoice numbers
  stay pairwise distinct. Of two such successful requests with no delete request between
  them, the later gets the larger \<open>next_id\<close>. With a delete between them this fails:
  in the counterexample the invoice with the largest id is deleted, and the next request
  is given \<^verbatim>\<open>INV-00002\<close> a second time.
\<close>

theorem generated_invoice_no:
  "(truthy (invoice_no payload) = None \<and> create_invoice rt payload fs d = (Inr resp, d') \<longrightarrow>
      r_invoice_no resp = ''INV-'' @ format_05d (next_id d) \<and>
      r_invoice_no resp \<notin> set (map inv_invoice_no (invoices d))) \<and>
   next_id d = (if invoices d = [] then 0 else Max (inv_id ` set (invoices d))) + 1 \<and>
   (0 \<le> n \<longrightarrow>
      format_05d n = replicate (5 - length (str_int n)) CHR ''0'' @ str_int n \<and>
      5 \<le> length (format_05d n) \<and> (n < 100000 \<longrightarrow> length (format_05d n) = 5)) \<and>
   (distinct (map inv_invoice_no (invoices d)) \<longrightarrow>
      distinct (map inv_invoice_no (invoices (serve_all rt rqs d)))) \<and>
   (truthy (invoice_no payload) = None \<and> create_invoice rt payload fs d = (Inr resp, d') \<and>
    (\<forall>rq \<in> set rqs'. \<not> is_delete (fst rq)) \<and>
    truthy (invoice_no payload') = None \<and>
    create_invoice rt payload' fs' (serve_all rt rqs' d') = (Inr resp', d'') \<longrightarrow>
      r_invoice_no resp' = ''INV-'' @ format_05d (next_id (serve_all rt rqs' d')) \<and>
      next_id d < next_id (serve_all rt rqs' d'))"
proof (intro conjI impI)
  show "next_id d = (if invoices d = [] then 0 else Max (inv_id ` set (invoices d))) + 1"
    by (rule next_id_Max)
  show "distinct (map inv_invoice_no (invoices (serve_all rt rqs d)))"
    if "distinct (map inv_invoice_no (invoices d))"
    using serve_distinct_numbers that
    by (rule serve_all_invariant [where P = "\<lambda>d. distinct (map inv_invoice_no (invoices d))"])
  show "format_05d n = replicate (5 - length (str_int n)) CHR ''0'' @ str_int n" if "0 \<le> n"
    using that by (simp add: format_05d_def str_int_def zfill_def)
  show "5 \<le> length (format_05d n)" if "0 \<le> n"
    using length_format_05d [OF that] by simp
  show "length (format_05d n) = 5" if "0 \<le> n" "n < 100000"
    using length_format_05d [OF that(1)] that(2) by simp
  have gen: "r_invoice_no r = ''INV-'' @ format_05d (next_id s) \<and>
      r_invoice_no r \<notin> set (map inv_invoice_no (invoices s))"
    if "truthy (invoice_no p) = None \<and> create_invoice rt p f s = (Inr r, s')"
    for p f s r s'
  proof -
    from that obtain client rows new_items where
      "r_invoice_no r =
         (case truthy (invoice_no p) of
            Some n \<Rightarrow> n | None \<Rightarrow> ''INV-'' @ format_05d (next_id s))"
      "r_invoice_no r \<notin> set (map inv_invoice_no (invoices s))"
      by (blast elim: create_invoice_db)
    with that show ?thesis by simp
  qed
  show "r_invoice_no resp = ''INV-'' @ format_05d (next_id d)"
    if "truthy (invoice_no payload) = None \<and> create_invoice rt payload fs d = (Inr resp, d')"
    using gen [OF that] by (rule conjunct1)
  show "r_invoice_no resp \<notin> set (map inv_invoice_no (invoices d))"
    if "truthy (invoice_no payload) = None \<and> create_invoice rt payload fs d = (Inr resp, d')"
    using gen [OF that] by (rule conjunct2)
  assume seq: "truthy (invoice_no payload) = None \<and>
    create_invoice rt payload fs d = (Inr resp, d') \<and>
    (\<forall>rq \<in> set rqs'. \<not> is_delete (fst rq)) \<and>
    truthy (invoice_no payload') = None \<and>
    create_invoice rt payload' fs' (serve_all rt rqs' d') = (Inr resp', d'')"
  then show "r_invoice_no resp' = ''INV-'' @ format_05d (next_id (serve_all rt rqs' d'))"
    using gen [of payload' fs' "serve_all rt rqs' d'" resp' d''] by blast
  from seq have ok: "create_invoice rt payload fs d = (Inr resp, d')" by simp
  from ok obtain client rows new_items where
    rid: "resp =
       \<lparr>r_id = autoincrement (invoices_seq d) (map inv_id (invoices d)),
        r_invoice_no = r_invoice_no resp,
        r_issue_date = issue_date payload, r_due_date = due_date payload,
        r_client =
          \<lparr>cr_id = c_id client, cr_name = c_name client, cr_address = c_address client,
           cr_company_registration_no = c_company_registration_no client\<rparr>,
        r_address = choose_address (address payload) client, r_items = rows,
        r_tax = tax payload,
        r_total = foldl (+) 0 (map ir_line_total rows) + tax payload\<rparr>"
    and hdr: "invoices d' = invoices d @
       [\<lparr>inv_id = r_id resp, inv_invoice_no = r_invoice_no resp,
         inv_issue_date = isoformat rt (issue_date payload),
         inv_due_date = isoformat rt (due_date payload), inv_client_id = client_id payload,
         inv_address = r_address resp, inv_tax = tax payload, inv_total = r_total resp\<rparr>]"
    by (rule create_invoice_db)
  let ?row = "\<lparr>inv_id = r_id resp, inv_invoice_no = r_invoice_no resp,
         inv_issue_date = isoformat rt (issue_date payload),
         inv_due_date = isoformat rt (due_date payload), inv_client_id = client_id payload,
         inv_address = r_address resp, inv_tax = tax payload, inv_total = r_total resp\<rparr>"
  have "r_id resp = autoincrement (invoices_seq d) (map inv_id (invoices d))"
    by (subst rid) simp
  with next_id_le_autoincrement [of d] have le: "next_id d \<le> r_id resp" by simp
  from hdr have "?row \<in> set (invoices d')" by simp
  with seq serve_all_keeps_invoices [of rqs' d' rt]
  have "?row \<in> set (invoices (serve_all rt rqs' d'))" by blast
  from next_id_gt [OF this] have "r_id resp < next_id (serve_all rt rqs' d')" by simp
  with le show "next_id d < next_id (serve_all rt rqs' d')" by simp
qed

theorem generated_invoice_no_counterexample:
  "map_sum id r_invoice_no (fst (create_invoice example_runtime example_payload [] example_db)) =
     Inr ''INV-00002'' \<and>
   fst (delete_invoice 2 [] (snd (create_invoice example_runtime example_payload [] example_db))) =
     Inr () \<and>
   map_sum id r_invoice_no
     (fst (create_invoice example_runtime example_payload []
        (snd (delete_invoice 2 []
           (snd (create_invoice example_runtime example_payload [] example_db)))))) =
     Inr ''INV-00002'' \<and>
   map_sum id r_id
     (fst (create_invoice example_runtime example_payload []
        (snd (delete_invoice 2 []
           (snd (create_invoice example_runtime example_payload [] example_db)))))) =
     Inr 3 \<and>
   format_05d 100000 = ''100000''"
proof -
  have six: "format_05d 100000 = ''100000''"
    by (simp add: format_05d_def zfill_def str_nat.simps digit_char_def)
  have reuse:
    "map_sum id r_invoice_no (fst (create_invoice example_runtime example_payload [] example_db)) =
       Inr ''INV-00002'' \<and>
     fst (delete_invoice 2 [] (snd (create_invoice example_runtime example_payload [] example_db))) =
       Inr () \<and>
     map_sum id r_invoice_no
       (fst (create_invoice example_runtime example_payload []
          (snd (delete_invoice 2 []
             (snd (create_invoice example_runtime example_payload [] example_db)))))) =
       Inr ''INV-00002'' \<and>
     map_sum id r_id
       (fst (create_invoice example_runtime example_payload []
          (snd (delete_invoice 2 []
             (snd (create_invoice example_runtime example_payload [] example_db)))))) =
       Inr 3"
    by code_simp
  from reuse six show ?thesis by blast
qed

theorem generated_invoice_no_witness:
  "create_invoice example_runtime example_payload [] upgrade = (Inr example_response, example_db) \<and>
   r_invoice_no example_response = ''INV-00001'' \<and>
   next_id upgrade = 1 \<and>
   format_05d 7 = ''00007'' \<and>
   distinct (map inv_invoice_no (invoices (serve_all example_runtime
     [(Create example_payload, []),
      (Create (example_payload\<lparr>invoice_no := Some ''INV-00003''\<rparr>), []),
      (Create example_payload, []),
      (Delete 1, []),
      (Create example_payload, [Some ''database is locked''])] upgrade))) \<and>
   fst (create_invoice example_runtime example_payload []
     (serve_all example_runtime
        [(Create (example_payload\<lparr>invoice_no := Some ''2026/A-7''\<rparr>), []), (Get 1, [])]
        example_db)) =
     Inr (example_response\<lparr>r_id := 3, r_invoice_no := ''INV-00003''\<rparr>) \<and>
   next_id upgrade <
     next_id (serve_all example_runtime
        [(Create (example_payload\<lparr>invoice_no := Some ''2026/A-7''\<rparr>), []), (Get 1, [])]
        example_db)"
proof -
  let ?rqs = "[(Create example_payload, []),
      (Create (example_payload\<lparr>invoice_no := Some ''INV-00003''\<rparr>), []),
      (Create example_payload, []),
      (Delete 1, []),
      (Create example_payload, [Some ''database is locked''])]
      :: ((real, string) request \<times> string option list) list"
  let ?between = "[(Create (example_payload\<lparr>invoice_no := Some ''2026/A-7''\<rparr>), []), (Get 1, [])]
      :: ((real, string) request \<times> string option list) list"
  let ?resp' = "example_response\<lparr>r_id := 3, r_invoice_no := ''INV-00003''\<rparr>"
  let ?d'' = "snd (create_invoice example_runtime example_payload []
      (serve_all example_runtime ?between example_db))"
  have auto_no: "truthy (invoice_no example_payload) = None" by code_simp
  have first: "create_invoice example_runtime example_payload [] upgrade =
      (Inr example_response, example_db)"
    by code_simp
  have start: "distinct (map inv_invoice_no (invoices upgrade))" by (simp add: upgrade_def)
  have quiet: "\<forall>rq \<in> set ?between. \<not> is_delete (fst rq)" by (simp add: is_delete_def)
  have second: "create_invoice example_runtime example_payload []
      (serve_all example_runtime ?between example_db) = (Inr ?resp', ?d'')"
    by code_simp
  have seven: "(0::int) \<le> 7" by simp
  have text_7: "replicate (5 - length (str_int 7)) CHR ''0'' @ str_int 7 = ''00007''" by code_simp
  have text_1: "''INV-'' @ format_05d (next_id upgrade) = ''INV-00001''" by code_simp
  have one: "(if invoices upgrade = [] then 0 else Max (inv_id ` set (invoices upgrade))) + 1 = 1"
    by (simp add: upgrade_def)
  note inst = generated_invoice_no [where payload = example_payload and rt = example_runtime
      and fs = "[]" and d = upgrade and resp = example_response and d' = example_db and n = 7
      and rqs = ?rqs and rqs' = ?between and payload' = example_payload and fs' = "[]"
      and resp' = ?resp' and d'' = ?d'']
  from inst auto_no first have a: "r_invoice_no example_response = ''INV-00001''"
    unfolding text_1 by blast
  from inst have b: "next_id upgrade = 1" unfolding one by blast
  from inst seven have c: "format_05d 7 = ''00007''" unfolding text_7 by blast
  from inst start
  have d: "distinct (map inv_invoice_no (invoices (serve_all example_runtime ?rqs upgrade)))"
    by blast
  from inst auto_no first quiet second
  have e: "next_id upgrade < next_id (serve_all example_runtime ?between example_db)"
    by blast
  from second have f: "fst (create_invoice example_runtime example_payload []
      (serve_all example_runtime ?between example_db)) = Inr ?resp'"
    by (metis fst_conv)
  from first a b c d e f show ?thesis by blast
qed

end
